theory Spec2Isabelle
  imports Main "HOL-Library.Word"
begin

section \<open>Shapes (\<^verbatim>\<open>struct Shape<dimension>\<close>, tensor.h lines 22-124)\<close>

text \<open>
  \<^verbatim>\<open>index_t\<close> and \<^verbatim>\<open>real_t\<close> are declared in \<^verbatim>\<open>tensor_base.h\<close>, which is not among
  the sources, so the index type is a parameter of the model: the record is polymorphic in
  it, and every operation is defined for an unsigned machine integer \<open>'i word\<close> of any
  width. \<^verbatim>\<open>size_t\<close> is an unsigned machine integer \<open>'s word\<close> of any width. An
  \<^verbatim>\<open>index_t\<close> that meets a \<^verbatim>\<open>size_t\<close> in a product is converted first (\<open>ucast\<close>), and
  every product and difference wraps around as C++ unsigned arithmetic does.

  The template parameter \<^verbatim>\<open>dimension\<close> is the length of the array \<^verbatim>\<open>shape_\<close>: a
  \<^verbatim>\<open>Shape<D>\<close> is a record whose list \<open>shape_m\<close> has \<open>D\<close> entries. The members
  \<^verbatim>\<open>shape_\<close> and \<^verbatim>\<open>stride_\<close> are the fields \<open>shape_m\<close> and \<open>stride_m\<close> (a name
  cannot end with an underscore here).
\<close>

record 'index_t Shape =
  shape_m :: "'index_t list"
  stride_m :: "'index_t"

definition zMaxShape :: "'a Shape \<Rightarrow> nat" where
  "zMaxShape this = length (shape_m this)"

text \<open>\<^verbatim>\<open>zSubShape = dimension - 1\<close>; every shape has \<open>dimension \<ge> 1\<close>.\<close>

definition zSubShape :: "'a Shape \<Rightarrow> nat" where
  "zSubShape this = zMaxShape this - 1"

text \<open>
  \<^verbatim>\<open>operator==\<close>: the loop over \<open>i = 0 .. zMaxShape - 1\<close> leaves with \<open>false\<close> at the
  first extent that differs; \<open>stride_\<close> is never read.
\<close>

fun eq_loop :: "'a Shape \<Rightarrow> 'a Shape \<Rightarrow> nat list \<Rightarrow> bool" where
  "eq_loop this s [] = True"
| "eq_loop this s (i # is) =
     (if shape_m s ! i \<noteq> shape_m this ! i then False else eq_loop this s is)"

definition Shape_eq :: "'a Shape \<Rightarrow> 'a Shape \<Rightarrow> bool" where
  "Shape_eq this s = eq_loop this s [0..<zMaxShape this]"

text \<open>
  \<^verbatim>\<open>FlatTo2D\<close>: \<open>ymax\<close> is an \<^verbatim>\<open>index_t\<close>, multiplied by the extents
  \<open>1 .. zMaxShape - 1\<close> in turn.
\<close>

definition FlatTo2D :: "('i::len) word Shape \<Rightarrow> 'i word Shape" where
  "FlatTo2D this =
     (let ymax = fold (\<lambda>i ymax. ymax * shape_m this ! i) [1..<zMaxShape this] 1
      in \<lparr>shape_m = [shape_m this ! 0, ymax], stride_m = stride_m this\<rparr>)"

text \<open>\<^verbatim>\<open>Size\<close>: \<open>memsz\<close> is a \<^verbatim>\<open>size_t\<close> that starts from extent 0.\<close>

definition Size :: "('i::len) word Shape \<Rightarrow> ('s::len) word" where
  "Size this =
     fold (\<lambda>i memsz. memsz * ucast (shape_m this ! i)) [1..<zMaxShape this]
       (ucast (shape_m this ! 0))"

text \<open>\<^verbatim>\<open>MSize\<close>: the same loop, started from \<open>stride_\<close>.\<close>

definition MSize :: "('i::len) word Shape \<Rightarrow> ('s::len) word" where
  "MSize this =
     fold (\<lambda>i memsz. memsz * ucast (shape_m this ! i)) [1..<zMaxShape this]
       (ucast (stride_m this))"

text \<open>\<^verbatim>\<open>SubShape\<close>: copies \<open>stride_\<close> and the extents \<open>0 .. zSubShape - 1\<close>.\<close>

definition SubShape :: "'a Shape \<Rightarrow> 'a Shape" where
  "SubShape this =
     \<lparr>shape_m = map (\<lambda>i. shape_m this ! i) [0..<zSubShape this],
      stride_m = stride_m this\<rparr>"

section \<open>Tensors (\<^verbatim>\<open>struct Tensor<Device, dimension>\<close>, tensor.h lines 185-285)\<close>

text \<open>
  A tensor is a handle: a pointer and a shape. A pointer \<^verbatim>\<open>real_t *\<close> is modelled as the
  position of a scalar in the memory of the device, counted in scalars, a machine word as
  wide as \<^verbatim>\<open>size_t\<close>; \<open>p + n\<close> is the pointer \<open>n\<close> scalars after \<open>p\<close>, and like every
  sum of machine words it wraps around. The device tag carries no data and is left out.
\<close>

record ('index_t, 'ptr) Tensor =
  dptr :: "'ptr"
  shape :: "'index_t Shape"

text \<open>\<^verbatim>\<open>Tensor::FlatTo2D\<close> (the same text in the primary template and at rank 1).\<close>

definition Tensor_FlatTo2D :: "(('i::len) word, 'p) Tensor \<Rightarrow> ('i word, 'p) Tensor" where
  "Tensor_FlatTo2D this = \<lparr>dptr = dptr this, shape = FlatTo2D (shape this)\<rparr>"

text \<open>\<^verbatim>\<open>Tensor::operator[]\<close> of the primary template: a tensor of one dimension less.\<close>

definition subscript ::
  "(('i::len) word, ('s::len) word) Tensor \<Rightarrow> 'i word \<Rightarrow> ('i word, 's word) Tensor" where
  "subscript this idx =
     (let s = SubShape (shape this)
      in \<lparr>dptr = dptr this + MSize s * ucast idx, shape = s\<rparr>)"

text \<open>\<^verbatim>\<open>Tensor::Slice\<close> of the primary template.\<close>

definition Slice ::
  "(('i::len) word, ('s::len) word) Tensor \<Rightarrow> 'i word \<Rightarrow> 'i word \<Rightarrow> ('i word, 's word) Tensor" where
  "Slice this begin end =
     (let s = shape this;
          s = s\<lparr>shape_m := (shape_m s)[zMaxShape s - 1 := end - begin]\<rparr>
      in \<lparr>dptr = dptr this + MSize (SubShape s) * ucast begin, shape = s\<rparr>)"

text \<open>
  The specialisation \<^verbatim>\<open>Tensor<Device, 1>\<close>: \<^verbatim>\<open>Slice\<close> builds a fresh \<^verbatim>\<open>Shape<1>\<close> and
  assigns its extent and its stride; \<^verbatim>\<open>operator[]\<close> is a reference to the scalar
  \<^verbatim>\<open>dptr[idx]\<close>, modelled as that scalar's position.
\<close>

definition Slice1 ::
  "(('i::len) word, ('s::len) word) Tensor \<Rightarrow> 'i word \<Rightarrow> 'i word \<Rightarrow> ('i word, 's word) Tensor" where
  "Slice1 this begin end =
     (let v = end - begin;
          s = \<lparr>shape_m = [v], stride_m = v\<rparr>
      in \<lparr>dptr = dptr this + ucast begin, shape = s\<rparr>)"

definition subscript1 :: "(('i::len) word, ('s::len) word) Tensor \<Rightarrow> 'i word \<Rightarrow> 's word" where
  "subscript1 this idx = dptr this + ucast idx"

text \<open>
  The compiler picks the specialisation exactly for \<open>dimension = 1\<close>. The two functions
  below make that choice from the rank of the handle, so that a statement about "a tensor
  of rank \<open>D\<close>" can be made for every \<open>D\<close> at once. The result of \<^verbatim>\<open>operator[]\<close> is a
  reference to a scalar at rank 1 and a tensor otherwise.
\<close>

datatype ('index_t, 'ptr) element =
  ScalarRef 'ptr
| SubTensor "('index_t, 'ptr) Tensor"

definition Tensor_Slice ::
  "(('i::len) word, ('s::len) word) Tensor \<Rightarrow> 'i word \<Rightarrow> 'i word \<Rightarrow> ('i word, 's word) Tensor" where
  "Tensor_Slice this begin end =
     (if zMaxShape (shape this) = 1 then Slice1 this begin end else Slice this begin end)"

definition Tensor_subscript ::
  "(('i::len) word, ('s::len) word) Tensor \<Rightarrow> 'i word \<Rightarrow> ('i word, 's word) element" where
  "Tensor_subscript this idx =
     (if zMaxShape (shape this) = 1 then ScalarRef (subscript1 this idx)
      else SubTensor (subscript this idx))"

section \<open>The expression engine (declared in tensor.h lines 339-372, defined elsewhere)\<close>

text \<open>
  tensor.h declares \<^verbatim>\<open>expr::Plan\<close>, \<^verbatim>\<open>MapPlan\<close> and \<^verbatim>\<open>MapExp\<close> and includes their
  definitions from \<^verbatim>\<open>tensor_expr.h\<close>, \<^verbatim>\<open>tensor_cpu-inl.hpp\<close> and
  \<^verbatim>\<open>tensor_expr_engine-inl.hpp\<close>, none of which is among the sources. The definitions of
  this section follow the specification (sections 3 and 4.4) instead. Scalars (\<^verbatim>\<open>real_t\<close>)
  are a type parameter \<open>'r\<close>, and the arithmetic operators, which the specification leaves
  to external collaborators, are arbitrary functions on \<open>'r\<close>. The memory of the device
  gives the scalar stored at every position.
\<close>

type_synonym ('p, 'r) memory = "'p \<Rightarrow> 'r"

text \<open>
  Modelled from the spec: the expression nodes of \<^verbatim>\<open>tensor_expr.h\<close> (absent). "Closed set
  of node kinds: leaf (array handle), unary operator, binary operator, scalar broadcast,
  aggregate"; only the elementwise kinds are modelled, aggregate nodes "are evaluated
  through a distinct code path".
\<close>

datatype ('i, 'p, 'r) Exp =
  TensorExp "('i, 'p) Tensor"
| ScalarExp 'r
| UnaryMapExp "'r \<Rightarrow> 'r" "('i, 'p, 'r) Exp"
| BinaryMapExp "'r \<Rightarrow> 'r \<Rightarrow> 'r" "('i, 'p, 'r) Exp" "('i, 'p, 'r) Exp"

text \<open>
  Modelled from the spec: \<^verbatim>\<open>class Plan\<close>, declared in tensor.h and defined in
  \<^verbatim>\<open>tensor_expr_engine-inl.hpp\<close> (absent). "One Plan per node, each holding references to
  its children's Plans plus any scalar/pointer data needed to evaluate without consulting
  the original node again": the Plan of a leaf holds the pointer and the stride.
\<close>

datatype ('i, 'p, 'r) Plan =
  TensorPlan 'p 'i
| ScalarPlan 'r
| UnaryMapPlan "'r \<Rightarrow> 'r" "('i, 'p, 'r) Plan"
| BinaryMapPlan "'r \<Rightarrow> 'r \<Rightarrow> 'r" "('i, 'p, 'r) Plan" "('i, 'p, 'r) Plan"

text \<open>
  Modelled from the spec: Plan construction (absent). "Given an expression-node tree,
  recursively construct an isomorphic Plan tree."
\<close>

fun MakePlan :: "('i, 'p, 'r) Exp \<Rightarrow> ('i, 'p, 'r) Plan" where
  "MakePlan (TensorExp t) = TensorPlan (dptr t) (stride_m (shape t))"
| "MakePlan (ScalarExp v) = ScalarPlan v"
| "MakePlan (UnaryMapExp f e) = UnaryMapPlan f (MakePlan e)"
| "MakePlan (BinaryMapExp f l r) = BinaryMapPlan f (MakePlan l) (MakePlan r)"

text \<open>
  Modelled from the spec: the evaluate routine of a Plan (absent). "Evaluate at (row,
  column), returning a scalar. A binary-operator Plan evaluates its two child Plans at the
  same coordinate and combines them." The leaf reads the scalar at row \<open>y\<close> and column \<open>x\<close>
  of the flattened array, \<open>y \<times> stride + x\<close> scalars after the pointer (the stride is the
  allocated extent of dimension 0).
\<close>

fun Eval ::
  "(('i::len) word, ('s::len) word, 'r) Plan \<Rightarrow> ('s word, 'r) memory \<Rightarrow> 'i word \<Rightarrow> 'i word \<Rightarrow> 'r" where
  "Eval (TensorPlan p stride) mem y x = mem (p + ucast y * ucast stride + ucast x)"
| "Eval (ScalarPlan v) mem y x = v"
| "Eval (UnaryMapPlan f e) mem y x = f (Eval e mem y x)"
| "Eval (BinaryMapPlan f l r) mem y x = f (Eval l mem y x) (Eval r mem y x)"

text \<open>
  Modelled from the spec: the overwriting store policy (absent). A store policy takes the
  scalar that the destination holds and the scalar that was computed, and gives the scalar
  to store.
\<close>

definition saveto :: "'r \<Rightarrow> 'r \<Rightarrow> 'r" where
  "saveto a b = b"

text \<open>
  Modelled from the spec: the values that a loop "for every row" or "for every column"
  runs through, \<open>0, 1, \<dots>, n - 1\<close> as \<^verbatim>\<open>index_t\<close>.
\<close>

definition index_range :: "('i::len) word \<Rightarrow> 'i word list" where
  "index_range n = map of_nat [0..<unat n]"

text \<open>
  Modelled from the spec: \<^verbatim>\<open>MapPlan\<close> for the host, declared in tensor.h and defined in
  \<^verbatim>\<open>tensor_cpu-inl.hpp\<close> (absent). "Flatten the destination to a 2-D (height \<times> width)
  coordinate space; for every (row, column) pair, call the Plan's evaluate routine and
  write the result into the destination through a store policy"; on the host this is a
  sequential loop. The destination element is \<^verbatim>\<open>dst[y][x]\<close> of the flattened handle, with
  the two \<^verbatim>\<open>operator[]\<close> of tensor.h.
\<close>

definition MapPlan ::
  "('r \<Rightarrow> 'r \<Rightarrow> 'r) \<Rightarrow> (('i::len) word, ('s::len) word) Tensor \<Rightarrow> ('i word, 's word, 'r) Plan
     \<Rightarrow> ('s word, 'r) memory \<Rightarrow> ('s word, 'r) memory" where
  "MapPlan save dst plan mem =
     (let d = Tensor_FlatTo2D dst
      in fold (\<lambda>y mem.
           fold (\<lambda>x mem.
              mem(subscript1 (subscript d y) x :=
                    save (mem (subscript1 (subscript d y) x)) (Eval plan mem y x)))
             (index_range (shape_m (shape d) ! 0)) mem)
           (index_range (shape_m (shape d) ! 1)) mem)"

text \<open>
  Modelled from the spec: \<^verbatim>\<open>MapExp\<close>, declared in tensor.h and defined in
  \<^verbatim>\<open>tensor_expr_engine-inl.hpp\<close> (absent). "Builds the Plan tree, and invokes the
  evaluation driver"; the shape check is conceptual only, a mismatch is left undefined.
\<close>

definition MapExp ::
  "('r \<Rightarrow> 'r \<Rightarrow> 'r) \<Rightarrow> (('i::len) word, ('s::len) word) Tensor \<Rightarrow> ('i word, 's word, 'r) Exp
     \<Rightarrow> ('s word, 'r) memory \<Rightarrow> ('s word, 'r) memory" where
  "MapExp save dst exp mem = MapPlan save dst (MakePlan exp) mem"

text \<open>
  Modelled from the spec: the two evaluations that the fusion property compares. The fused
  one assigns \<open>(A + B) * C\<close> to \<open>dst\<close> in one \<^verbatim>\<open>MapExp\<close>; the eager one assigns \<open>A + B\<close> to
  a buffer \<open>tmp\<close> and then \<open>tmp * C\<close> to \<open>dst\<close>.
\<close>

definition fused ::
  "('r \<Rightarrow> 'r \<Rightarrow> 'r) \<Rightarrow> ('r \<Rightarrow> 'r \<Rightarrow> 'r) \<Rightarrow> (('i::len) word, ('s::len) word) Tensor
     \<Rightarrow> ('i word, 's word) Tensor \<Rightarrow> ('i word, 's word) Tensor \<Rightarrow> ('i word, 's word) Tensor
     \<Rightarrow> ('s word, 'r) memory \<Rightarrow> ('s word, 'r) memory" where
  "fused plus_op mul_op dst A B C mem =
     MapExp saveto dst
       (BinaryMapExp mul_op (BinaryMapExp plus_op (TensorExp A) (TensorExp B)) (TensorExp C)) mem"

definition eager ::
  "('r \<Rightarrow> 'r \<Rightarrow> 'r) \<Rightarrow> ('r \<Rightarrow> 'r \<Rightarrow> 'r) \<Rightarrow> (('i::len) word, ('s::len) word) Tensor
     \<Rightarrow> ('i word, 's word) Tensor \<Rightarrow> ('i word, 's word) Tensor \<Rightarrow> ('i word, 's word) Tensor
     \<Rightarrow> ('i word, 's word) Tensor \<Rightarrow> ('s word, 'r) memory \<Rightarrow> ('s word, 'r) memory" where
  "eager plus_op mul_op tmp dst A B C mem =
     MapExp saveto dst (BinaryMapExp mul_op (TensorExp tmp) (TensorExp C))
       (MapExp saveto tmp (BinaryMapExp plus_op (TensorExp A) (TensorExp B)) mem)"

text \<open>
  Modelled from the spec: an array. The handle has rank at least 1 and satisfies the
  invariant of the data model, "pad \<ge> extents[0]", and its rows lie in memory one after the
  other without running past the last position: stride times the number of rows
  is at most \<open>2 ^ w\<close>, where \<open>w\<close> is the width of a pointer.
\<close>

definition array :: "(('i::len) word, ('s::len) word) Tensor \<Rightarrow> bool" where
  "array t \<longleftrightarrow>
     shape_m (shape t) \<noteq> [] \<and>
     shape_m (shape t) ! 0 \<le> stride_m (shape t) \<and>
     unat (stride_m (shape t)) * unat (shape_m (FlatTo2D (shape t)) ! 1) \<le> 2 ^ LENGTH('s)"

text \<open>
  Modelled from the spec: the coordinates of the flattened handle, every (row, column) pair
  in the order of the loops, and the position of the element at a coordinate,
  \<^verbatim>\<open>t[y][x]\<close> with the two \<^verbatim>\<open>operator[]\<close> of tensor.h.
\<close>

definition coords :: "(('i::len) word, 'p) Tensor \<Rightarrow> ('i word \<times> 'i word) list" where
  "coords t =
     (let d = Tensor_FlatTo2D t
      in List.product (index_range (shape_m (shape d) ! 1)) (index_range (shape_m (shape d) ! 0)))"

definition elem :: "(('i::len) word, ('s::len) word) Tensor \<Rightarrow> 'i word \<Rightarrow> 'i word \<Rightarrow> 's word" where
  "elem t y x = subscript1 (subscript (Tensor_FlatTo2D t) y) x"

text \<open>
  Modelled from the spec: the positions of the logical elements of an array. Two arrays are
  separate buffers when these sets are disjoint.
\<close>

definition footprint :: "(('i::len) word, ('s::len) word) Tensor \<Rightarrow> 's word set" where
  "footprint t = (\<lambda>(y, x). elem t y x) ` set (coords t)"

section \<open>Facts about the loops\<close>

lemma fold_times_prod:
  "fold (\<lambda>i (m::'a::comm_monoid_mult). m * f i) js m0 = m0 * prod_list (map f js)"
  by (induction js arbitrary: m0) (simp_all add: mult.assoc)

lemma map_nth_from_1:
  "xs \<noteq> [] \<Longrightarrow> map (\<lambda>i. f (xs ! i)) [1..<length xs] = map f (tl xs)"
  by (rule nth_equalityI) (auto simp: nth_tl)

lemma Size_prod_tl:
  "shape_m s \<noteq> [] \<Longrightarrow>
     (Size s :: 's::len word) = ucast (hd (shape_m s)) * prod_list (map ucast (tl (shape_m s)))"
  unfolding Size_def zMaxShape_def fold_times_prod
  by (simp add: map_nth_from_1 hd_conv_nth del: One_nat_def)

lemma MSize_prod_tl:
  "shape_m s \<noteq> [] \<Longrightarrow>
     (MSize s :: 's::len word) = ucast (stride_m s) * prod_list (map ucast (tl (shape_m s)))"
  unfolding MSize_def zMaxShape_def fold_times_prod
  by (simp add: map_nth_from_1 del: One_nat_def)

lemma FlatTo2D_prod_tl:
  "shape_m s \<noteq> [] \<Longrightarrow>
     FlatTo2D s = \<lparr>shape_m = [hd (shape_m s), prod_list (tl (shape_m s))], stride_m = stride_m s\<rparr>"
  unfolding FlatTo2D_def zMaxShape_def fold_times_prod Let_def
  using map_nth_from_1 [of "shape_m s" "\<lambda>x. x"] by (simp add: hd_conv_nth del: One_nat_def)

lemma SubShape_butlast:
  "SubShape s = \<lparr>shape_m = butlast (shape_m s), stride_m = stride_m s\<rparr>"
proof -
  have "map (\<lambda>i. shape_m s ! i) [0..<length (shape_m s) - 1] = butlast (shape_m s)"
    by (rule nth_equalityI) (auto simp: nth_butlast)
  then show ?thesis
    by (simp add: SubShape_def zSubShape_def zMaxShape_def)
qed

lemma prod_list_of_nat:
  "prod_list (map (\<lambda>x. of_nat (f x)) xs) = (of_nat (prod_list (map f xs)) :: 'a::comm_semiring_1)"
  by (induction xs) simp_all

lemma ucast_prod_list:
  "prod_list (map ucast (xs :: ('i::len) word list)) =
     (of_nat (prod_list (map unat xs)) :: ('s::len) word)"
  using prod_list_of_nat [of unat xs, where 'a = "'s word"] by simp

lemma Size_of_nat:
  "shape_m s \<noteq> [] \<Longrightarrow> (Size s :: 's::len word) = of_nat (prod_list (map unat (shape_m s)))"
  by (cases "shape_m s") (simp_all add: Size_prod_tl ucast_prod_list)

lemma MSize_of_nat:
  "shape_m s \<noteq> [] \<Longrightarrow>
     (MSize s :: 's::len word) = of_nat (unat (stride_m s) * prod_list (map unat (tl (shape_m s))))"
  by (simp add: MSize_prod_tl ucast_prod_list)

section \<open>The logical size\<close>

text \<open>
  Claim C5, as amended. For every rank \<open>D \<ge> 1\<close> and every \<^verbatim>\<open>Shape<D>\<close>, \<^verbatim>\<open>Size()\<close> is the
  product of all \<open>D\<close> extents taken in \<^verbatim>\<open>size_t\<close>, that is, the product of the extents
  reduced modulo \<open>2 ^ w\<close>, where \<open>w\<close> is the width of \<^verbatim>\<open>size_t\<close>; it is the product of the
  extents itself whenever that product is below \<open>2 ^ w\<close>; and it does not depend on the
  stride: replacing the stride by any other value leaves the result unchanged.
\<close>

theorem Size_is_product:
  fixes s :: "('i::len) word Shape"
  assumes "shape_m s \<noteq> []"
  shows "(Size s :: ('s::len) word) = prod_list (map ucast (shape_m s)) \<and>
         unat (Size s :: 's word) = prod_list (map unat (shape_m s)) mod 2 ^ LENGTH('s) \<and>
         (prod_list (map unat (shape_m s)) < 2 ^ LENGTH('s) \<longrightarrow>
            unat (Size s :: 's word) = prod_list (map unat (shape_m s))) \<and>
         (Size (s\<lparr>stride_m := p\<rparr>) :: 's word) = Size s"
proof -
  have "(Size s :: 's word) = prod_list (map ucast (shape_m s))"
    using assms by (cases "shape_m s") (simp_all add: Size_prod_tl)
  moreover have m: "unat (Size s :: 's word) = prod_list (map unat (shape_m s)) mod 2 ^ LENGTH('s)"
    using assms by (simp add: Size_of_nat unat_of_nat)
  moreover have "unat (Size s :: 's word) = prod_list (map unat (shape_m s))"
    if "prod_list (map unat (shape_m s)) < 2 ^ LENGTH('s)"
    using m that by simp
  moreover have "(Size (s\<lparr>stride_m := p\<rparr>) :: 's word) = Size s"
    by (simp add: Size_def zMaxShape_def)
  ultimately show ?thesis by simp
qed

text \<open>
  Extents \<open>(3, 4)\<close> with stride 8: twelve elements, and twelve with stride 5 as well.
\<close>

theorem Size_is_product_witness:
  "shape_m \<lparr>shape_m = [3, 4 :: 32 word], stride_m = 8\<rparr> \<noteq> [] \<and>
   prod_list (map unat (shape_m \<lparr>shape_m = [3, 4 :: 32 word], stride_m = 8\<rparr>)) < 2 ^ LENGTH(64) \<and>
   unat (Size \<lparr>shape_m = [3, 4 :: 32 word], stride_m = 8\<rparr> :: 64 word) = 12 \<and>
   (Size \<lparr>shape_m = [3, 4 :: 32 word], stride_m = 8\<rparr> :: 64 word) = 12 \<and>
   (Size \<lparr>shape_m = [3, 4 :: 32 word], stride_m = 5\<rparr> :: 64 word) = 12"
  using Size_is_product [of "\<lparr>shape_m = [3, 4 :: 32 word], stride_m = 8\<rparr>" 5, where 's = 64]
  by simp

text \<open>
  Claim C5 as it was stated has no bound on the extents. With a 32-bit \<^verbatim>\<open>index_t\<close> and
  a 64-bit \<^verbatim>\<open>size_t\<close>, the rank-3 shape with extents \<open>(2^31, 2^31, 4)\<close> has the product
  of extents \<open>2^64\<close>, but \<open>memsz\<close> goes \<open>2^31\<close>, \<open>2^62\<close>, \<open>2^64\<close>, which wraps to 0, so
  that \<^verbatim>\<open>Size()\<close> is 0.
\<close>

theorem Size_wraps_counterexample:
  "(Size \<lparr>shape_m = [2147483648, 2147483648, 4 :: 32 word], stride_m = 2147483648\<rparr> :: 64 word) = 0 \<and>
   prod_list (map unat (shape_m \<lparr>shape_m = [2147483648, 2147483648, 4 :: 32 word], stride_m = 2147483648\<rparr>))
     = 18446744073709551616 \<and>
   unat (Size \<lparr>shape_m = [2147483648, 2147483648, 4 :: 32 word], stride_m = 2147483648\<rparr> :: 64 word)
     \<noteq> prod_list (map unat (shape_m \<lparr>shape_m = [2147483648, 2147483648, 4 :: 32 word], stride_m = 2147483648\<rparr>))"
  by (simp add: Size_def zMaxShape_def upt_rec)

section \<open>Equality of shapes\<close>

lemma eq_loop_iff:
  "eq_loop this s js \<longleftrightarrow> (\<forall>i \<in> set js. shape_m s ! i = shape_m this ! i)"
  by (induction js) auto

text \<open>
  Claim C8. For two shapes of the same rank, \<^verbatim>\<open>operator==\<close> returns true if and only if
  all \<open>D\<close> extents are pairwise equal, whatever the strides of the two shapes are: the
  result is the same after the two strides are replaced by any values \<open>p\<close> and \<open>q\<close>.
\<close>

theorem Shape_eq_extents_only:
  assumes "zMaxShape s = zMaxShape this"
  shows "(Shape_eq this s \<longleftrightarrow> (\<forall>i < zMaxShape this. shape_m s ! i = shape_m this ! i)) \<and>
         (Shape_eq this s \<longleftrightarrow> shape_m s = shape_m this) \<and>
         Shape_eq (this\<lparr>stride_m := p\<rparr>) (s\<lparr>stride_m := q\<rparr>) = Shape_eq this s"
proof -
  have a: "Shape_eq this s \<longleftrightarrow> (\<forall>i < zMaxShape this. shape_m s ! i = shape_m this ! i)"
    by (auto simp: Shape_eq_def eq_loop_iff)
  have b: "(\<forall>i < zMaxShape this. shape_m s ! i = shape_m this ! i) \<longleftrightarrow> shape_m s = shape_m this"
    using assms by (auto simp: zMaxShape_def list_eq_iff_nth_eq)
  have c: "Shape_eq (this\<lparr>stride_m := p\<rparr>) (s\<lparr>stride_m := q\<rparr>) = Shape_eq this s"
    by (simp add: Shape_eq_def eq_loop_iff zMaxShape_def)
  from a b c show ?thesis by simp
qed

text \<open>Equal extents with strides 3 and 8 compare equal; extents \<open>(3, 4)\<close> and \<open>(3, 5)\<close> do not.\<close>

theorem Shape_eq_extents_only_witness:
  "zMaxShape \<lparr>shape_m = [3, 4 :: 32 word], stride_m = 8\<rparr> = zMaxShape \<lparr>shape_m = [3, 4 :: 32 word], stride_m = 3\<rparr> \<and>
   Shape_eq \<lparr>shape_m = [3, 4 :: 32 word], stride_m = 3\<rparr> \<lparr>shape_m = [3, 4 :: 32 word], stride_m = 8\<rparr> \<and>
   \<not> Shape_eq \<lparr>shape_m = [3, 4 :: 32 word], stride_m = 3\<rparr> \<lparr>shape_m = [3, 5 :: 32 word], stride_m = 3\<rparr>"
  using Shape_eq_extents_only [of "\<lparr>shape_m = [3, 4 :: 32 word], stride_m = 8\<rparr>" "\<lparr>shape_m = [3, 4 :: 32 word], stride_m = 3\<rparr>", THEN conjunct2, THEN conjunct1]
    Shape_eq_extents_only [of "\<lparr>shape_m = [3, 5 :: 32 word], stride_m = 3\<rparr>" "\<lparr>shape_m = [3, 4 :: 32 word], stride_m = 3\<rparr>", THEN conjunct2, THEN conjunct1]
  by (simp add: zMaxShape_def)

section \<open>Dropping the outermost dimension\<close>

lemma SubShape_funpow:
  "(SubShape ^^ k) s = \<lparr>shape_m = take (length (shape_m s) - k) (shape_m s), stride_m = stride_m s\<rparr>"
proof (induction k)
  case 0
  show ?case by simp
next
  case (Suc k)
  have "(SubShape ^^ Suc k) s = SubShape ((SubShape ^^ k) s)" by simp
  also have "\<dots> = SubShape \<lparr>shape_m = take (length (shape_m s) - k) (shape_m s), stride_m = stride_m s\<rparr>"
    by (simp only: Suc)
  also have "\<dots> = \<lparr>shape_m = take (length (shape_m s) - Suc k) (shape_m s), stride_m = stride_m s\<rparr>"
    by (simp add: SubShape_butlast butlast_take)
  finally show ?case .
qed

text \<open>
  Claim C9. For every shape of rank \<open>D \<ge> 1\<close>, applying \<^verbatim>\<open>SubShape()\<close> \<open>D - 1\<close> times
  yields the rank-1 shape whose only extent is the original extent 0, and after every number
  \<open>k \<le> D - 1\<close> of steps the stride is the original one, the rank is \<open>D - k\<close> and extent 0
  is the original extent 0.
\<close>

theorem SubShape_iterated:
  assumes "shape_m s \<noteq> []" and "k \<le> zMaxShape s - 1"
  shows "(SubShape ^^ (zMaxShape s - 1)) s = \<lparr>shape_m = [shape_m s ! 0], stride_m = stride_m s\<rparr> \<and>
         stride_m ((SubShape ^^ k) s) = stride_m s \<and>
         zMaxShape ((SubShape ^^ k) s) = zMaxShape s - k \<and>
         shape_m ((SubShape ^^ k) s) ! 0 = shape_m s ! 0"
proof -
  from assms(1) obtain x xs where xs: "shape_m s = x # xs" by (cases "shape_m s") auto
  have "(SubShape ^^ (zMaxShape s - 1)) s = \<lparr>shape_m = [shape_m s ! 0], stride_m = stride_m s\<rparr>"
    by (simp add: SubShape_funpow zMaxShape_def xs)
  moreover have "shape_m ((SubShape ^^ k) s) ! 0 = shape_m s ! 0"
    using assms(2) by (simp add: SubShape_funpow zMaxShape_def xs)
  ultimately show ?thesis
    using assms(2) by (simp add: SubShape_funpow zMaxShape_def)
qed

text \<open>A rank-3 shape, one step and two steps.\<close>

theorem SubShape_iterated_witness:
  "shape_m \<lparr>shape_m = [3, 4, 5 :: 32 word], stride_m = 8\<rparr> \<noteq> [] \<and>
   (1::nat) \<le> zMaxShape \<lparr>shape_m = [3, 4, 5 :: 32 word], stride_m = 8\<rparr> - 1 \<and>
   SubShape (SubShape \<lparr>shape_m = [3, 4, 5 :: 32 word], stride_m = 8\<rparr>) = \<lparr>shape_m = [3], stride_m = 8\<rparr> \<and>
   SubShape \<lparr>shape_m = [3, 4, 5 :: 32 word], stride_m = 8\<rparr> = \<lparr>shape_m = [3, 4], stride_m = 8\<rparr>"
  using SubShape_iterated [of "\<lparr>shape_m = [3, 4, 5 :: 32 word], stride_m = 8\<rparr>" 1]
  by (simp add: zMaxShape_def zSubShape_def SubShape_def numeral_2_eq_2 upt_rec)

section \<open>Indexing and slicing\<close>

lemma SubShape_update_last:
  "SubShape (s\<lparr>shape_m := (shape_m s)[zMaxShape s - Suc 0 := v]\<rparr>) = SubShape s"
  by (simp add: SubShape_butlast zMaxShape_def butlast_list_update)

lemma unat_sub_le: "(b::'a::len word) \<le> e \<Longrightarrow> unat (e - b) = unat e - unat b"
  by (simp add: unat_sub)

lemma ucast_add_no_overflow:
  fixes b i :: "('i::len) word"
  assumes "unat b + unat i < 2 ^ LENGTH('i)"
  shows "(ucast (b + i) :: ('s::len) word) = ucast b + ucast i"
proof -
  have "unat (b + i) = unat b + unat i"
    using assms by (simp add: unat_add_lem)
  then have "(of_nat (unat (b + i)) :: 's word) = of_nat (unat b) + of_nat (unat i)"
    by simp
  then show ?thesis by simp
qed

lemma slice_index_no_overflow:
  fixes b e i :: "('i::len) word"
  assumes "b \<le> e" and "i < e - b"
  shows "unat b + unat i < 2 ^ LENGTH('i)"
proof -
  have "unat i < unat e - unat b"
    using assms by (simp add: word_less_nat_alt unat_sub)
  moreover have "unat e < 2 ^ LENGTH('i)" by simp
  ultimately show ?thesis by linarith
qed

lemma Slice_dims:
  "Slice t b e =
     \<lparr>dptr = dptr t + MSize (SubShape (shape t)) * ucast b,
      shape = (shape t)\<lparr>shape_m := (shape_m (shape t))[zMaxShape (shape t) - 1 := e - b]\<rparr>\<rparr>"
  by (simp add: Slice_def Let_def SubShape_update_last)

lemma subscript_Slice:
  fixes t :: "(('i::len) word, ('s::len) word) Tensor"
  assumes "unat b + unat i < 2 ^ LENGTH('i)"
  shows "subscript (Slice t b e) i = subscript t (b + i)"
  by (simp add: Slice_dims subscript_def Let_def SubShape_update_last
      ucast_add_no_overflow [OF assms] distrib_left)

lemma Slice1_dims:
  "Slice1 t b e = \<lparr>dptr = dptr t + ucast b, shape = \<lparr>shape_m = [e - b], stride_m = e - b\<rparr>\<rparr>"
  by (simp add: Slice1_def Let_def)

text \<open>
  Claim C4. For every tensor of rank \<open>D > 1\<close> and every index \<open>idx\<close>, \<^verbatim>\<open>operator[](idx)\<close>
  is a view of rank \<open>D - 1\<close> whose shape is \<^verbatim>\<open>SubShape()\<close> (the extents \<open>0 .. D - 2\<close> and
  the stride of the original) and whose pointer is the original pointer plus
  \<^verbatim>\<open>SubShape().MSize()\<close> \<open>\<times> idx\<close>; for a tensor of rank 1 it is a reference to the scalar at
  offset \<open>idx\<close> from the pointer.
\<close>

theorem subscript_subview:
  fixes t :: "(('i::len) word, ('s::len) word) Tensor"
  shows "(1 < zMaxShape (shape t) \<longrightarrow>
            Tensor_subscript t idx =
              SubTensor \<lparr>dptr = dptr t + MSize (SubShape (shape t)) * ucast idx,
                         shape = SubShape (shape t)\<rparr> \<and>
            zMaxShape (SubShape (shape t)) = zMaxShape (shape t) - 1 \<and>
            shape_m (SubShape (shape t)) = take (zMaxShape (shape t) - 1) (shape_m (shape t)) \<and>
            stride_m (SubShape (shape t)) = stride_m (shape t)) \<and>
         (zMaxShape (shape t) = 1 \<longrightarrow> Tensor_subscript t idx = ScalarRef (dptr t + ucast idx))"
  by (simp add: Tensor_subscript_def subscript_def subscript1_def SubShape_butlast
      zMaxShape_def butlast_conv_take Let_def)

text \<open>
  A rank-3 view with extents \<open>(3, 4, 5)\<close> and stride 8 at position 1000: entry 2 starts
  \<open>8 \<times> 4 \<times> 2 = 64\<close> scalars further. A rank-1 view: entry 2 is the scalar at 1002.
\<close>

theorem subscript_subview_witness:
  "1 < zMaxShape (shape \<lparr>dptr = 1000 :: 64 word, shape = \<lparr>shape_m = [3, 4, 5 :: 32 word], stride_m = 8\<rparr>\<rparr>) \<and>
   Tensor_subscript \<lparr>dptr = 1000 :: 64 word, shape = \<lparr>shape_m = [3, 4, 5 :: 32 word], stride_m = 8\<rparr>\<rparr> 2 =
     SubTensor \<lparr>dptr = 1064, shape = \<lparr>shape_m = [3, 4], stride_m = 8\<rparr>\<rparr> \<and>
   zMaxShape (shape \<lparr>dptr = 1000 :: 64 word, shape = \<lparr>shape_m = [4 :: 32 word], stride_m = 8\<rparr>\<rparr>) = 1 \<and>
   Tensor_subscript \<lparr>dptr = 1000 :: 64 word, shape = \<lparr>shape_m = [4 :: 32 word], stride_m = 8\<rparr>\<rparr> 2 =
     ScalarRef 1002"
  using subscript_subview [of "\<lparr>dptr = 1000 :: 64 word, shape = \<lparr>shape_m = [3, 4, 5 :: 32 word], stride_m = 8\<rparr>\<rparr>" 2]
    subscript_subview [of "\<lparr>dptr = 1000 :: 64 word, shape = \<lparr>shape_m = [4 :: 32 word], stride_m = 8\<rparr>\<rparr>" 2]
  by (simp add: zMaxShape_def zSubShape_def SubShape_def MSize_def upt_rec)

text \<open>
  Claim C2. For every tensor \<open>t\<close> of rank \<open>D \<ge> 1\<close> and all indices \<open>b \<le> e\<close>, the view
  \<^verbatim>\<open>t.Slice(b, e)\<close> has the rank of \<open>t\<close> and outermost extent \<open>e - b\<close>, and for every
  \<open>i\<close> in \<open>[0, e - b)\<close> the index \<open>b + i\<close> lies in \<open>[b, e)\<close> and the slice indexed at \<open>i\<close>
  is the same as \<open>t\<close> indexed at \<open>b + i\<close>: the same sub-view (pointer and shape) for
  \<open>D > 1\<close>, a reference to the same scalar for \<open>D = 1\<close>. (With \<open>e\<close> at most the
  outermost extent \<open>N\<close> of \<open>t\<close>, as in the claim, \<open>b + i\<close> is an index of \<open>t\<close>; the
  equalities hold for every \<open>e\<close>.)
\<close>

theorem Slice_aliases_direct_indexing:
  fixes t :: "(('i::len) word, ('s::len) word) Tensor"
  assumes "shape_m (shape t) \<noteq> []" and "b \<le> e" and "i < e - b"
  shows "zMaxShape (shape (Tensor_Slice t b e)) = zMaxShape (shape t) \<and>
         shape_m (shape (Tensor_Slice t b e)) ! (zMaxShape (shape t) - 1) = e - b \<and>
         unat (e - b) = unat e - unat b \<and>
         b \<le> b + i \<and> b + i < e \<and>
         Tensor_subscript (Tensor_Slice t b e) i = Tensor_subscript t (b + i)"
proof -
  note no = slice_index_no_overflow [OF assms(2,3)]
  have lt: "unat i < unat e - unat b"
    using assms(2,3) by (simp add: word_less_nat_alt unat_sub)
  have sum: "unat (b + i) = unat b + unat i"
    using no by (simp add: unat_add_lem)
  have rng: "b \<le> b + i \<and> b + i < e"
    using lt sum by (simp add: word_le_nat_alt word_less_nat_alt)
  have rank: "zMaxShape (shape (Tensor_Slice t b e)) = zMaxShape (shape t)"
    by (simp add: Tensor_Slice_def Slice1_def Slice_dims zMaxShape_def Let_def)
  have ext: "shape_m (shape (Tensor_Slice t b e)) ! (zMaxShape (shape t) - 1) = e - b"
    using assms(1) by (simp add: Tensor_Slice_def Slice1_def Slice_dims zMaxShape_def Let_def)
  have sub: "Tensor_subscript (Tensor_Slice t b e) i = Tensor_subscript t (b + i)"
  proof (cases "zMaxShape (shape t) = 1")
    case True
    then show ?thesis
      using rank
      by (simp add: Tensor_subscript_def Tensor_Slice_def Slice1_def subscript1_def Let_def
          ucast_add_no_overflow [OF no])
  next
    case False
    then show ?thesis
      using rank by (simp add: Tensor_subscript_def Tensor_Slice_def subscript_Slice [OF no])
  qed
  from rank ext rng sub unat_sub_le [OF assms(2)] show ?thesis by simp
qed

text \<open>The rows 1 and 2 of a rank-3 view: entry 1 of the slice is entry 2 of the view.\<close>

theorem Slice_aliases_direct_indexing_witness:
  "shape_m (shape \<lparr>dptr = 1000 :: 64 word, shape = \<lparr>shape_m = [3, 4, 5 :: 32 word], stride_m = 8\<rparr>\<rparr>) \<noteq> [] \<and>
   (1 :: 32 word) \<le> 3 \<and> (1 :: 32 word) < 3 - 1 \<and>
   Tensor_subscript (Tensor_Slice \<lparr>dptr = 1000 :: 64 word, shape = \<lparr>shape_m = [3, 4, 5 :: 32 word], stride_m = 8\<rparr>\<rparr> 1 3) 1 =
     SubTensor \<lparr>dptr = 1064, shape = \<lparr>shape_m = [3, 4], stride_m = 8\<rparr>\<rparr>"
proof -
  have "Tensor_subscript \<lparr>dptr = 1000 :: 64 word, shape = \<lparr>shape_m = [3, 4, 5 :: 32 word], stride_m = 8\<rparr>\<rparr> 2 =
     SubTensor \<lparr>dptr = 1064, shape = \<lparr>shape_m = [3, 4], stride_m = 8\<rparr>\<rparr>"
    by (simp add: Tensor_subscript_def subscript_def zMaxShape_def zSubShape_def SubShape_def MSize_def upt_rec)
  with Slice_aliases_direct_indexing [of "\<lparr>dptr = 1000 :: 64 word, shape = \<lparr>shape_m = [3, 4, 5 :: 32 word], stride_m = 8\<rparr>\<rparr>" 1 3 1]
  show ?thesis by simp
qed

text \<open>
  Claim C3, as amended. For every tensor of rank \<open>D \<ge> 2\<close> and indices \<open>begin \<le> end\<close>,
  \<^verbatim>\<open>Slice(begin, end)\<close> is a view whose pointer is the original pointer plus
  \<^verbatim>\<open>SubShape().MSize()\<close> \<open>\<times> begin\<close>, whose outermost extent is \<open>end - begin\<close>, and whose other
  extents and stride are those of the original. For a tensor of rank 1 the pointer is the
  original pointer plus \<open>begin\<close>, and the extent and the stride of the view are both
  \<open>end - begin\<close>.
\<close>

theorem Slice_view:
  fixes t :: "(('i::len) word, ('s::len) word) Tensor"
  assumes "shape_m (shape t) \<noteq> []" and "b \<le> e"
  shows "(1 < zMaxShape (shape t) \<longrightarrow>
            dptr (Tensor_Slice t b e) = dptr t + MSize (SubShape (shape t)) * ucast b \<and>
            shape_m (shape (Tensor_Slice t b e)) =
              (shape_m (shape t))[zMaxShape (shape t) - 1 := e - b] \<and>
            stride_m (shape (Tensor_Slice t b e)) = stride_m (shape t)) \<and>
         (zMaxShape (shape t) = 1 \<longrightarrow>
            dptr (Tensor_Slice t b e) = dptr t + ucast b \<and>
            shape_m (shape (Tensor_Slice t b e)) = [e - b] \<and>
            stride_m (shape (Tensor_Slice t b e)) = e - b) \<and>
         unat (e - b) = unat e - unat b"
  using unat_sub_le [OF assms(2)]
  by (simp add: Tensor_Slice_def Slice_dims Slice1_dims)

text \<open>
  The rows 1 and 2 of a rank-3 view with extents \<open>(3, 4, 5)\<close> and stride 8, and the
  entries 1 and 2 of a rank-1 view with extent 4 and stride 8.
\<close>

theorem Slice_view_witness:
  "shape_m (shape \<lparr>dptr = 1000 :: 64 word, shape = \<lparr>shape_m = [3, 4, 5 :: 32 word], stride_m = 8\<rparr>\<rparr>) \<noteq> [] \<and>
   (1 :: 32 word) \<le> 3 \<and>
   1 < zMaxShape (shape \<lparr>dptr = 1000 :: 64 word, shape = \<lparr>shape_m = [3, 4, 5 :: 32 word], stride_m = 8\<rparr>\<rparr>) \<and>
   dptr (Tensor_Slice \<lparr>dptr = 1000 :: 64 word, shape = \<lparr>shape_m = [3, 4, 5 :: 32 word], stride_m = 8\<rparr>\<rparr> 1 3) = 1032 \<and>
   shape_m (shape (Tensor_Slice \<lparr>dptr = 1000 :: 64 word, shape = \<lparr>shape_m = [3, 4, 5 :: 32 word], stride_m = 8\<rparr>\<rparr> 1 3)) = [3, 4, 2] \<and>
   stride_m (shape (Tensor_Slice \<lparr>dptr = 1000 :: 64 word, shape = \<lparr>shape_m = [3, 4, 5 :: 32 word], stride_m = 8\<rparr>\<rparr> 1 3)) = 8 \<and>
   zMaxShape (shape \<lparr>dptr = 1000 :: 64 word, shape = \<lparr>shape_m = [4 :: 32 word], stride_m = 8\<rparr>\<rparr>) = 1 \<and>
   dptr (Tensor_Slice \<lparr>dptr = 1000 :: 64 word, shape = \<lparr>shape_m = [4 :: 32 word], stride_m = 8\<rparr>\<rparr> 1 3) = 1001 \<and>
   shape_m (shape (Tensor_Slice \<lparr>dptr = 1000 :: 64 word, shape = \<lparr>shape_m = [4 :: 32 word], stride_m = 8\<rparr>\<rparr> 1 3)) = [2] \<and>
   stride_m (shape (Tensor_Slice \<lparr>dptr = 1000 :: 64 word, shape = \<lparr>shape_m = [4 :: 32 word], stride_m = 8\<rparr>\<rparr> 1 3)) = 2"
  using Slice_view [of "\<lparr>dptr = 1000 :: 64 word, shape = \<lparr>shape_m = [3, 4, 5 :: 32 word], stride_m = 8\<rparr>\<rparr>" 1 3]
    Slice_view [of "\<lparr>dptr = 1000 :: 64 word, shape = \<lparr>shape_m = [4 :: 32 word], stride_m = 8\<rparr>\<rparr>" 1 3]
  by (simp add: zMaxShape_def zSubShape_def SubShape_def MSize_def upt_rec)

text \<open>
  Claim C3 as it was stated includes rank 1. A rank-1 view of extent 4 and stride 8 at
  position 1000, sliced to \<open>[1, 3)\<close>: the pointer moves by 1 scalar, not by
  \<^verbatim>\<open>SubShape().MSize()\<close> \<open>\<times> 1 = 8\<close>, and the stride of the slice is 2, not 8.
\<close>

theorem Slice_rank1_counterexample:
  "dptr (Tensor_Slice \<lparr>dptr = 1000 :: 64 word, shape = \<lparr>shape_m = [4 :: 32 word], stride_m = 8\<rparr>\<rparr> 1 3)
     \<noteq> dptr \<lparr>dptr = 1000 :: 64 word, shape = \<lparr>shape_m = [4 :: 32 word], stride_m = 8\<rparr>\<rparr>
         + MSize (SubShape (shape \<lparr>dptr = 1000 :: 64 word, shape = \<lparr>shape_m = [4 :: 32 word], stride_m = 8\<rparr>\<rparr>)) * ucast (1 :: 32 word) \<and>
   stride_m (shape (Tensor_Slice \<lparr>dptr = 1000 :: 64 word, shape = \<lparr>shape_m = [4 :: 32 word], stride_m = 8\<rparr>\<rparr> 1 3))
     \<noteq> stride_m (shape \<lparr>dptr = 1000 :: 64 word, shape = \<lparr>shape_m = [4 :: 32 word], stride_m = 8\<rparr>\<rparr>)"
  by (simp add: Tensor_Slice_def Slice1_def zMaxShape_def zSubShape_def SubShape_def MSize_def Let_def)

text \<open>
  Claim C10. For every tensor of rank 1 and indices \<open>begin \<le> end\<close>, \<^verbatim>\<open>Slice(begin, end)\<close>
  is the view whose pointer is the original pointer plus \<open>begin\<close>, whatever the stride of
  the original is, and whose extent and stride are both \<open>end - begin\<close>; so the allocated
  size of the slice is its logical size, and the stride of the slice is the stride of the
  original only if that was \<open>end - begin\<close> already.
\<close>

theorem Slice1_packed:
  fixes t :: "(('i::len) word, ('s::len) word) Tensor"
  assumes "zMaxShape (shape t) = 1" and "b \<le> e"
  shows "Tensor_Slice t b e =
           \<lparr>dptr = dptr t + ucast b, shape = \<lparr>shape_m = [e - b], stride_m = e - b\<rparr>\<rparr> \<and>
         unat (e - b) = unat e - unat b \<and>
         dptr (Tensor_Slice (t\<lparr>shape := (shape t)\<lparr>stride_m := p\<rparr>\<rparr>) b e) = dptr (Tensor_Slice t b e) \<and>
         (MSize (shape (Tensor_Slice t b e)) :: 's word) = Size (shape (Tensor_Slice t b e)) \<and>
         (stride_m (shape (Tensor_Slice t b e)) = stride_m (shape t) \<longleftrightarrow> stride_m (shape t) = e - b)"
  using assms(1) unat_sub_le [OF assms(2)]
  by (auto simp: Tensor_Slice_def Slice1_dims zMaxShape_def MSize_def Size_def)

text \<open>The slice \<open>[1, 3)\<close> of a rank-1 view of extent 4 and stride 8.\<close>

theorem Slice1_packed_witness:
  "zMaxShape (shape \<lparr>dptr = 1000 :: 64 word, shape = \<lparr>shape_m = [4 :: 32 word], stride_m = 8\<rparr>\<rparr>) = 1 \<and>
   (1 :: 32 word) \<le> 3 \<and>
   Tensor_Slice \<lparr>dptr = 1000 :: 64 word, shape = \<lparr>shape_m = [4 :: 32 word], stride_m = 8\<rparr>\<rparr> 1 3 =
     \<lparr>dptr = 1001, shape = \<lparr>shape_m = [2], stride_m = 2\<rparr>\<rparr>"
  using Slice1_packed [of "\<lparr>dptr = 1000 :: 64 word, shape = \<lparr>shape_m = [4 :: 32 word], stride_m = 8\<rparr>\<rparr>" 1 3]
  by (simp add: zMaxShape_def)

section \<open>The allocated size\<close>

text \<open>
  Claim C6, as amended. For every shape of rank \<open>D \<ge> 1\<close> with \<open>stride \<ge> extent 0\<close> whose
  allocated size \<open>stride \<times> product (extents 1 .. D - 1)\<close> is below \<open>2 ^ w\<close>, where \<open>w\<close> is
  the width of \<^verbatim>\<open>size_t\<close>: \<^verbatim>\<open>MSize()\<close> is the stride times the product of the extents
  \<open>1 .. D - 1\<close>, as a \<^verbatim>\<open>size_t\<close> and as a natural number, and \<^verbatim>\<open>MSize() >= Size()\<close>.
\<close>

theorem MSize_bounds_Size:
  fixes s :: "('i::len) word Shape"
  assumes "shape_m s \<noteq> []"
    and "shape_m s ! 0 \<le> stride_m s"
    and "unat (stride_m s) * prod_list (map unat (tl (shape_m s))) < 2 ^ LENGTH('s::len)"
  shows "(MSize s :: 's word) = ucast (stride_m s) * prod_list (map ucast (tl (shape_m s))) \<and>
         unat (MSize s :: 's word) = unat (stride_m s) * prod_list (map unat (tl (shape_m s))) \<and>
         (Size s :: 's word) \<le> MSize s"
proof -
  let ?p = "prod_list (map unat (tl (shape_m s)))"
  from assms(1) obtain x xs where xs: "shape_m s = x # xs" by (cases "shape_m s") auto
  have le: "unat x * ?p \<le> unat (stride_m s) * ?p"
    using assms(2) by (simp add: xs word_le_nat_alt mult_le_mono1)
  have "(MSize s :: 's word) = of_nat (unat (stride_m s) * ?p)"
    by (rule MSize_of_nat [OF assms(1)])
  then have "unat (MSize s :: 's word) = (unat (stride_m s) * ?p) mod 2 ^ LENGTH('s)"
    by (simp only: unat_of_nat)
  then have m: "unat (MSize s :: 's word) = unat (stride_m s) * ?p"
    using assms(3) by simp
  have "(Size s :: 's word) = of_nat (prod_list (map unat (shape_m s)))"
    by (rule Size_of_nat [OF assms(1)])
  then have "unat (Size s :: 's word) = (unat x * ?p) mod 2 ^ LENGTH('s)"
    by (simp only: unat_of_nat xs list.map prod_list.Cons list.sel)
  then have sz: "unat (Size s :: 's word) = unat x * ?p"
    using le assms(3) by simp
  from m sz le have "(Size s :: 's word) \<le> MSize s"
    by (simp add: word_le_nat_alt)
  with m MSize_prod_tl [OF assms(1), where 's = 's] show ?thesis by simp
qed

text \<open>Extents \<open>(3, 4)\<close> with stride 8: 32 scalars allocated, 12 of them logical.\<close>

theorem MSize_bounds_Size_witness:
  "shape_m \<lparr>shape_m = [3, 4 :: 32 word], stride_m = 8\<rparr> \<noteq> [] \<and>
   shape_m \<lparr>shape_m = [3, 4 :: 32 word], stride_m = 8\<rparr> ! 0 \<le> stride_m \<lparr>shape_m = [3, 4 :: 32 word], stride_m = 8\<rparr> \<and>
   unat (stride_m \<lparr>shape_m = [3, 4 :: 32 word], stride_m = 8\<rparr>)
     * prod_list (map unat (tl (shape_m \<lparr>shape_m = [3, 4 :: 32 word], stride_m = 8\<rparr>))) < 2 ^ LENGTH(64) \<and>
   unat (MSize \<lparr>shape_m = [3, 4 :: 32 word], stride_m = 8\<rparr> :: 64 word) = 32 \<and>
   (Size \<lparr>shape_m = [3, 4 :: 32 word], stride_m = 8\<rparr> :: 64 word) \<le> MSize \<lparr>shape_m = [3, 4 :: 32 word], stride_m = 8\<rparr>"
  using MSize_bounds_Size [of "\<lparr>shape_m = [3, 4 :: 32 word], stride_m = 8\<rparr>", where 's = 64]
  by (simp add: MSize_def zMaxShape_def upt_rec)

text \<open>
  Claim C6 as it was stated has no bound on the allocated size. With a 32-bit
  \<^verbatim>\<open>index_t\<close> and a 64-bit \<^verbatim>\<open>size_t\<close>, the rank-3 shape with extents \<open>(1, 2^31, 4)\<close>
  and stride \<open>2^31\<close> satisfies \<open>stride \<ge> extent 0\<close>; \<^verbatim>\<open>MSize()\<close> is
  \<open>2^31 \<times> 2^31 \<times> 4 = 2^64\<close>, which wraps to 0, and \<^verbatim>\<open>Size()\<close> is \<open>2^33\<close>.
\<close>

theorem MSize_wraps_counterexample:
  "shape_m \<lparr>shape_m = [1, 2147483648, 4 :: 32 word], stride_m = 2147483648\<rparr> ! 0
     \<le> stride_m \<lparr>shape_m = [1, 2147483648, 4 :: 32 word], stride_m = 2147483648\<rparr> \<and>
   (MSize \<lparr>shape_m = [1, 2147483648, 4 :: 32 word], stride_m = 2147483648\<rparr> :: 64 word) = 0 \<and>
   (Size \<lparr>shape_m = [1, 2147483648, 4 :: 32 word], stride_m = 2147483648\<rparr> :: 64 word) = 8589934592 \<and>
   \<not> (Size \<lparr>shape_m = [1, 2147483648, 4 :: 32 word], stride_m = 2147483648\<rparr> :: 64 word)
       \<le> MSize \<lparr>shape_m = [1, 2147483648, 4 :: 32 word], stride_m = 2147483648\<rparr>"
  by (simp add: Size_def MSize_def zMaxShape_def upt_rec)

section \<open>Flattening\<close>

lemma word_prod_list_of_nat:
  "prod_list (xs :: ('i::len) word list) = of_nat (prod_list (map unat xs))"
  by (induction xs) simp_all

lemma ucast_word_prod_list:
  fixes xs :: "('i::len) word list"
  assumes "prod_list (map unat xs) < 2 ^ LENGTH('i) \<or> LENGTH('s::len) \<le> LENGTH('i)"
  shows "(ucast (prod_list xs) :: 's word) = prod_list (map ucast xs)"
proof -
  let ?p = "prod_list (map unat xs)"
  have "(ucast (prod_list xs) :: 's word) = of_nat (unat (of_nat ?p :: 'i word))"
    by (subst word_prod_list_of_nat) simp
  also have "\<dots> = of_nat (take_bit LENGTH('i) ?p)"
    by (simp add: unat_of_nat take_bit_eq_mod)
  also have "\<dots> = (of_nat ?p :: 's word)"
    using assms
  proof
    assume "?p < 2 ^ LENGTH('i)"
    then show ?thesis by (simp add: take_bit_nat_eq_self)
  next
    assume "LENGTH('s) \<le> LENGTH('i)"
    then show ?thesis
      by (simp add: word_of_nat_eq_iff min_def)
  qed
  finally show ?thesis by (simp add: ucast_prod_list)
qed

lemma Size_FlatTo2D:
  "shape_m s \<noteq> [] \<Longrightarrow>
     (Size (FlatTo2D s) :: 's::len word) = ucast (hd (shape_m s)) * ucast (prod_list (tl (shape_m s)))"
  by (simp add: FlatTo2D_prod_tl Size_prod_tl)

text \<open>
  Claim C7, as amended. For every shape \<open>s\<close> of rank \<open>D \<ge> 1\<close>, \<^verbatim>\<open>s.FlatTo2D()\<close> is the
  rank-2 shape whose extent 0 is extent 0 of \<open>s\<close>, whose extent 1 is the product of the
  extents \<open>1 .. D - 1\<close> of \<open>s\<close> (a product of \<^verbatim>\<open>index_t\<close> values) and whose stride is the
  stride of \<open>s\<close>. Flattening preserves \<^verbatim>\<open>Size()\<close> whenever the product of the extents
  \<open>1 .. D - 1\<close> is below \<open>2 ^ v\<close>, where \<open>v\<close> is the width of \<^verbatim>\<open>index_t\<close>, and also
  whenever \<^verbatim>\<open>index_t\<close> is at least as wide as \<^verbatim>\<open>size_t\<close>. For \<open>D = 1\<close> the flattened shape
  is one row: extent 1 is 1 and extent 0 is the logical size.
\<close>

theorem FlatTo2D_shape:
  fixes s :: "('i::len) word Shape"
  assumes "shape_m s \<noteq> []"
  shows "FlatTo2D s =
           \<lparr>shape_m = [shape_m s ! 0, prod_list (tl (shape_m s))], stride_m = stride_m s\<rparr> \<and>
         (prod_list (map unat (tl (shape_m s))) < 2 ^ LENGTH('i) \<longrightarrow>
            (Size (FlatTo2D s) :: ('s::len) word) = Size s) \<and>
         (LENGTH('s) \<le> LENGTH('i) \<longrightarrow> (Size (FlatTo2D s) :: 's word) = Size s) \<and>
         (zMaxShape s = 1 \<longrightarrow>
            FlatTo2D s = \<lparr>shape_m = [shape_m s ! 0, 1], stride_m = stride_m s\<rparr> \<and>
            (Size s :: 's word) = ucast (shape_m s ! 0))"
proof -
  have flat: "FlatTo2D s =
      \<lparr>shape_m = [shape_m s ! 0, prod_list (tl (shape_m s))], stride_m = stride_m s\<rparr>"
    using assms by (simp add: FlatTo2D_prod_tl hd_conv_nth)
  have keep: "(Size (FlatTo2D s) :: 's word) = Size s"
    if "prod_list (map unat (tl (shape_m s))) < 2 ^ LENGTH('i) \<or> LENGTH('s) \<le> LENGTH('i)"
    using assms ucast_word_prod_list [where 's = 's, OF that]
    by (simp add: Size_FlatTo2D Size_prod_tl)
  have one: "FlatTo2D s = \<lparr>shape_m = [shape_m s ! 0, 1], stride_m = stride_m s\<rparr> \<and>
      (Size s :: 's word) = ucast (shape_m s ! 0)" if "zMaxShape s = 1"
  proof -
    from that obtain x where "shape_m s = [x]"
      by (cases "shape_m s") (auto simp: zMaxShape_def)
    then show ?thesis using flat by (simp add: Size_prod_tl)
  qed
  from flat keep one show ?thesis by blast
qed

text \<open>
  Extents \<open>(3, 4, 5)\<close> flatten to \<open>(3, 20)\<close>, 60 elements; a rank-1 shape flattens to one
  row; and where \<^verbatim>\<open>index_t\<close> and \<^verbatim>\<open>size_t\<close> are both 32 bits wide, the extents
  \<open>(1, 65536, 65536)\<close> have \<^verbatim>\<open>Size()\<close> 0 before and after flattening.
\<close>

theorem FlatTo2D_shape_witness:
  "shape_m \<lparr>shape_m = [3, 4, 5 :: 32 word], stride_m = 8\<rparr> \<noteq> [] \<and>
   prod_list (map unat (tl (shape_m \<lparr>shape_m = [3, 4, 5 :: 32 word], stride_m = 8\<rparr>))) < 2 ^ LENGTH(32) \<and>
   FlatTo2D \<lparr>shape_m = [3, 4, 5 :: 32 word], stride_m = 8\<rparr> = \<lparr>shape_m = [3, 20], stride_m = 8\<rparr> \<and>
   (Size (FlatTo2D \<lparr>shape_m = [3, 4, 5 :: 32 word], stride_m = 8\<rparr>) :: 64 word) = 60 \<and>
   zMaxShape \<lparr>shape_m = [7 :: 32 word], stride_m = 8\<rparr> = 1 \<and>
   FlatTo2D \<lparr>shape_m = [7 :: 32 word], stride_m = 8\<rparr> = \<lparr>shape_m = [7, 1], stride_m = 8\<rparr> \<and>
   LENGTH(32) \<le> LENGTH(32) \<and>
   (Size (FlatTo2D \<lparr>shape_m = [1, 65536, 65536 :: 32 word], stride_m = 1\<rparr>) :: 32 word) = 0 \<and>
   (Size \<lparr>shape_m = [1, 65536, 65536 :: 32 word], stride_m = 1\<rparr> :: 32 word) = 0"
proof -
  have "(Size \<lparr>shape_m = [3, 4, 5 :: 32 word], stride_m = 8\<rparr> :: 64 word) = 60"
    by (simp add: Size_def zMaxShape_def upt_rec)
  moreover have "(Size \<lparr>shape_m = [1, 65536, 65536 :: 32 word], stride_m = 1\<rparr> :: 32 word) = 0"
    by (simp add: Size_def zMaxShape_def upt_rec)
  ultimately show ?thesis
    using FlatTo2D_shape [of "\<lparr>shape_m = [3, 4, 5 :: 32 word], stride_m = 8\<rparr>", where 's = 64]
      FlatTo2D_shape [of "\<lparr>shape_m = [7 :: 32 word], stride_m = 8\<rparr>", where 's = 64]
      FlatTo2D_shape [of "\<lparr>shape_m = [1, 65536, 65536 :: 32 word], stride_m = 1\<rparr>", where 's = 32]
    by (simp add: zMaxShape_def Size_def upt_rec)
qed

text \<open>
  Claim C7 as it was stated has no bound on the extents. With a 32-bit \<^verbatim>\<open>index_t\<close> and
  a 64-bit \<^verbatim>\<open>size_t\<close>, the shape with extents \<open>(1, 65536, 65536)\<close> has \<^verbatim>\<open>Size()\<close>
  \<open>2^32\<close>, but \<open>ymax\<close> wraps to 0 in \<^verbatim>\<open>FlatTo2D\<close>, so the flattened shape has
  \<^verbatim>\<open>Size()\<close> 0.
\<close>

theorem FlatTo2D_count_counterexample:
  "(Size (FlatTo2D \<lparr>shape_m = [1, 65536, 65536 :: 32 word], stride_m = 1\<rparr>) :: 64 word) = 0 \<and>
   (Size \<lparr>shape_m = [1, 65536, 65536 :: 32 word], stride_m = 1\<rparr> :: 64 word) = 4294967296 \<and>
   (Size (FlatTo2D \<lparr>shape_m = [1, 65536, 65536 :: 32 word], stride_m = 1\<rparr>) :: 64 word)
     \<noteq> Size \<lparr>shape_m = [1, 65536, 65536 :: 32 word], stride_m = 1\<rparr>"
  by (simp add: Size_def FlatTo2D_def zMaxShape_def upt_rec)

section \<open>Fusion\<close>

subsection \<open>A loop of stores\<close>

lemma fold_product:
  "fold (\<lambda>y m. fold (\<lambda>x m. g y x m) xs m) ys m0 = fold (\<lambda>(y, x). g y x) (List.product ys xs) m0"
  by (induction ys arbitrary: m0) (simp_all add: fold_map comp_def)

lemma fold_store_other:
  "a \<notin> addr ` set cs \<Longrightarrow>
     fold (\<lambda>c m. m(addr c := save (m (addr c)) (val m c))) cs m a = m a"
  by (induction cs arbitrary: m) auto

lemma fold_store_at:
  assumes "distinct (map addr cs)"
    and "set cs \<subseteq> Cs" and "addr ` Cs \<subseteq> W"
    and frame: "\<And>c m m'. c \<in> Cs \<Longrightarrow> (\<forall>a. a \<notin> W \<or> a = addr c \<longrightarrow> m' a = m a)
                  \<Longrightarrow> val m' c = val m c"
    and "c \<in> set cs"
  shows "fold (\<lambda>c m. m(addr c := save (m (addr c)) (val m c))) cs m (addr c)
           = save (m (addr c)) (val m c)"
proof -
  define step where "step = (\<lambda>c m. m(addr c := save (m (addr c)) (val m c)))"
  have other: "fold step cs m a = m a" if "a \<notin> addr ` set cs" for cs m a
    using that unfolding step_def by (rule fold_store_other)
  have "fold step cs m (addr c) = save (m (addr c)) (val m c)"
    using assms(1,2,5)
  proof (induction cs arbitrary: m)
    case Nil
    then show ?case by simp
  next
    case (Cons c0 cs)
    have c0: "c0 \<in> Cs" using Cons.prems(2) by simp
    have agree: "\<forall>a. a \<notin> W \<or> a = addr c \<longrightarrow> step c0 m a = m a" if "addr c \<noteq> addr c0"
      using c0 assms(3) that by (auto simp: step_def)
    have fold_step: "fold step (c0 # cs) m = fold step cs (step c0 m)" by simp
    show ?case
    proof (cases "addr c = addr c0")
      case True
      then have "addr c \<notin> addr ` set cs" using Cons.prems(1) by simp
      then have "fold step cs (step c0 m) (addr c) = step c0 m (addr c)"
        by (rule other)
      moreover have "c = c0"
        using True Cons.prems(1,3) by (auto simp: image_iff)
      ultimately show ?thesis unfolding fold_step by (simp add: step_def)
    next
      case False
      then have in_cs: "c \<in> set cs" using Cons.prems(3) by auto
      then have "c \<in> Cs" using Cons.prems(2) by auto
      then have "val (step c0 m) c = val m c" using agree [OF False] by (rule frame)
      moreover have "fold step cs (step c0 m) (addr c)
          = save (step c0 m (addr c)) (val (step c0 m) c)"
        using Cons.prems(1,2) in_cs by (intro Cons.IH) auto
      moreover have "step c0 m (addr c) = m (addr c)"
        using False by (simp add: step_def)
      ultimately show ?thesis unfolding fold_step by simp
    qed
  qed
  then show ?thesis by (simp add: step_def)
qed

subsection \<open>Coordinates and positions\<close>

lemma set_index_range: "set (index_range n) = {y. y < n}"
proof -
  have "y \<in> set (index_range n)" if "y < n" for y :: "'a word"
  proof -
    have "unat y < unat n" using that by (simp add: word_less_nat_alt)
    moreover have "y = of_nat (unat y)" by simp
    ultimately show ?thesis
      unfolding index_range_def by (metis atLeast0LessThan imageI lessThan_iff set_map set_upt)
  qed
  moreover have "y < n" if "y \<in> set (index_range n)" for y :: "'a word"
  proof -
    from that obtain j where j: "j < unat n" "y = of_nat j" by (auto simp: index_range_def)
    have "j < 2 ^ LENGTH('a)" using j(1) unsigned_less [of n] by (meson order_less_trans)
    then have "unat y = j" by (simp add: j(2) unat_of_nat take_bit_nat_eq_self)
    then show ?thesis using j(1) by (simp add: word_less_nat_alt)
  qed
  ultimately show ?thesis by auto
qed

lemma distinct_index_range: "distinct (index_range n)"
proof -
  have "inj_on (of_nat :: nat \<Rightarrow> 'a word) {0..<unat n}"
  proof (rule inj_onI)
    fix j k assume a: "j \<in> {0..<unat n}" "k \<in> {0..<unat n}" "(of_nat j :: 'a word) = of_nat k"
    have "j < 2 ^ LENGTH('a)" "k < 2 ^ LENGTH('a)"
      using a(1,2) unsigned_less [of n, where 'a = nat] by (auto intro: order_less_trans)
    then show "j = k" using a(3) by (simp add: word_of_nat_eq_iff take_bit_nat_eq_self)
  qed
  then show ?thesis by (simp add: index_range_def distinct_map)
qed

lemma nat_offset_inj:
  fixes S :: nat
  assumes "k < S" "k' < S" "S * j + k = S * j' + k'"
  shows "j = j' \<and> k = k'"
proof -
  have "(S * j + k) div S = j" "(S * j' + k') div S = j'"
    using assms(1,2) by simp_all
  then have "j = j'" using assms(3) by simp
  then show ?thesis using assms(3) by simp
qed

lemma nat_offset_bound:
  fixes S :: nat
  assumes "j < H" "k < S" "S * H \<le> N"
  shows "S * j + k < N"
proof -
  have "S * j + k < S * (j + 1)" using assms(2) by simp
  also have "\<dots> \<le> S * H" using assms(1) by (intro mult_le_mono2) simp
  finally show ?thesis using assms(3) by simp
qed

lemma elem_position:
  fixes t :: "(('i::len) word, ('s::len) word) Tensor"
  assumes "shape_m (shape t) \<noteq> []"
  shows "elem t y x = dptr t + ucast y * ucast (stride_m (shape t)) + ucast x"
  using assms
  by (simp add: elem_def subscript1_def subscript_def Tensor_FlatTo2D_def FlatTo2D_prod_tl Let_def
      SubShape_butlast MSize_prod_tl mult.commute)

lemma position_of_nat:
  fixes y x S :: "('i::len) word"
  shows "(p :: ('s::len) word) + ucast y * ucast S + ucast x = p + of_nat (unat S * unat y + unat x)"
  by (simp add: mult.commute)


lemma set_coords:
  "set (coords t) =
     {y. y < shape_m (FlatTo2D (shape t)) ! 1} \<times> {x. x < shape_m (FlatTo2D (shape t)) ! 0}"
  by (simp add: coords_def Let_def Tensor_FlatTo2D_def set_index_range)

lemma distinct_coords: "distinct (coords t)"
  by (simp add: coords_def Let_def distinct_product distinct_index_range)

lemma coords_cong: "shape_m (shape t) = shape_m (shape u) \<Longrightarrow> coords t = coords u"
  by (simp add: coords_def Let_def Tensor_FlatTo2D_def FlatTo2D_def zMaxShape_def)

lemma MapPlan_fold:
  "MapPlan save dst plan mem =
     fold (\<lambda>c m. m((\<lambda>(y, x). elem dst y x) c :=
                    save (m ((\<lambda>(y, x). elem dst y x) c)) ((\<lambda>m (y, x). Eval plan m y x) m c)))
       (coords dst) mem"
  by (simp add: MapPlan_def Let_def fold_product coords_def elem_def case_prod_unfold)

lemma array_elem_distinct:
  fixes t :: "(('i::len) word, ('s::len) word) Tensor"
  assumes "array t"
  shows "distinct (map (\<lambda>(y, x). elem t y x) (coords t))"
proof -
  let ?S = "unat (stride_m (shape t))"
  let ?H = "shape_m (FlatTo2D (shape t)) ! 1"
  let ?W = "shape_m (FlatTo2D (shape t)) ! 0"
  from assms have ne: "shape_m (shape t) \<noteq> []"
    and pad: "shape_m (shape t) ! 0 \<le> stride_m (shape t)"
    and fit: "?S * unat ?H \<le> 2 ^ LENGTH('s)"
    by (simp_all add: array_def)
  have W: "?W = shape_m (shape t) ! 0"
    using ne by (simp add: FlatTo2D_prod_tl hd_conv_nth)
  have "inj_on (\<lambda>(y, x). elem t y x) (set (coords t))"
  proof (rule inj_onI, clarify)
    fix y x y' x'
    assume in1: "(y, x) \<in> set (coords t)" and in2: "(y', x') \<in> set (coords t)"
      and eq: "elem t y x = elem t y' x'"
    from in1 in2 have lt: "unat y < unat ?H" "unat y' < unat ?H" "unat x < unat ?W" "unat x' < unat ?W"
      by (simp_all add: set_coords word_less_nat_alt)
    have WS: "unat ?W \<le> ?S" using pad by (simp add: W word_le_nat_alt)
    have xs: "unat x < ?S" "unat x' < ?S" using lt(3,4) WS by simp_all
    have b1: "?S * unat y + unat x < 2 ^ LENGTH('s)"
      using lt(1) xs(1) fit by (rule nat_offset_bound)
    have b2: "?S * unat y' + unat x' < 2 ^ LENGTH('s)"
      using lt(2) xs(2) fit by (rule nat_offset_bound)
    from eq have "(of_nat (?S * unat y + unat x) :: 's word) = of_nat (?S * unat y' + unat x')"
      unfolding elem_position [OF ne] position_of_nat by simp
    then have "?S * unat y + unat x = ?S * unat y' + unat x'"
      using b1 b2 by (simp only: word_of_nat_eq_iff take_bit_nat_eq_self)
    with xs have "unat y = unat y' \<and> unat x = unat x'" by (intro nat_offset_inj)
    then show "y = y' \<and> x = x'" by (metis word_unat_eq_iff)
  qed
  then show ?thesis by (simp add: distinct_map distinct_coords)
qed

lemma MapPlan_other:
  "a \<notin> footprint dst \<Longrightarrow> MapPlan save dst plan mem a = mem a"
  unfolding MapPlan_fold footprint_def by (rule fold_store_other)

lemma MapPlan_at:
  assumes "array dst"
    and frame: "\<And>c m m'. c \<in> set (coords dst) \<Longrightarrow>
                  (\<forall>a. a \<notin> footprint dst \<or> a = elem dst (fst c) (snd c) \<longrightarrow> m' a = m a)
                  \<Longrightarrow> Eval plan m' (fst c) (snd c) = Eval plan m (fst c) (snd c)"
    and "(y, x) \<in> set (coords dst)"
  shows "MapPlan save dst plan mem (elem dst y x) = save (mem (elem dst y x)) (Eval plan mem y x)"
proof -
  define addr where "addr = (\<lambda>(y, x). elem dst y x)"
  define val where "val = (\<lambda>m (y, x). Eval plan m y x)"
  have "distinct (map addr (coords dst))"
    unfolding addr_def using assms(1) by (rule array_elem_distinct)
  moreover have "set (coords dst) \<subseteq> set (coords dst)" by simp
  moreover have "addr ` set (coords dst) \<subseteq> footprint dst"
    by (simp add: footprint_def addr_def)
  moreover have "val m' c = val m c"
    if "c \<in> set (coords dst)" "\<forall>a. a \<notin> footprint dst \<or> a = addr c \<longrightarrow> m' a = m a" for c m m'
  proof -
    have "\<forall>a. a \<notin> footprint dst \<or> a = elem dst (fst c) (snd c) \<longrightarrow> m' a = m a"
      using that(2) by (simp add: addr_def case_prod_unfold)
    with that(1) have "Eval plan m' (fst c) (snd c) = Eval plan m (fst c) (snd c)"
      by (rule frame)
    then show ?thesis by (simp add: val_def case_prod_unfold)
  qed
  ultimately have "fold (\<lambda>c m. m(addr c := save (m (addr c)) (val m c))) (coords dst) mem (addr (y, x))
      = save (mem (addr (y, x))) (val mem (y, x))"
    using assms(3) by (rule fold_store_at)
  then show ?thesis by (simp add: MapPlan_fold addr_def val_def)
qed

lemma elem_in_footprint:
  assumes "shape_m (shape t) = shape_m (shape u)" and "c \<in> set (coords u)"
  shows "elem t (fst c) (snd c) \<in> footprint t"
proof -
  have "c \<in> set (coords t)" using assms(2) coords_cong [OF assms(1)] by simp
  then show ?thesis unfolding footprint_def by (auto simp: case_prod_unfold)
qed

lemma source_read:
  assumes "X = dst \<or> footprint dst \<inter> footprint X = {}"
    and "elem X y x \<in> footprint X"
    and "\<forall>a. a \<notin> footprint dst \<or> a = elem dst y x \<longrightarrow> m' a = m a"
  shows "m' (elem X y x) = m (elem X y x)"
proof -
  from assms(1,2) have "elem X y x \<notin> footprint dst \<or> elem X y x = elem dst y x"
    by blast
  with assms(3) show ?thesis by blast
qed

subsection \<open>A small example\<close>

lemma example_footprint:
  "footprint (\<lparr>dptr = p, shape = \<lparr>shape_m = [2, 2], stride_m = 3\<rparr>\<rparr> :: (32 word, 64 word) Tensor)
     = {p, p + 1, p + 3, p + 4}"
  by (auto simp: footprint_def coords_def elem_def subscript_def subscript1_def Tensor_FlatTo2D_def
      FlatTo2D_def SubShape_def MSize_def zMaxShape_def zSubShape_def index_range_def Let_def
      upt_rec)

lemma example_array:
  "array (\<lparr>dptr = p, shape = \<lparr>shape_m = [2, 2], stride_m = 3\<rparr>\<rparr> :: (32 word, 64 word) Tensor)"
  by (simp add: array_def FlatTo2D_def zMaxShape_def upt_rec)

lemma example_elem:
  "elem (\<lparr>dptr = p, shape = \<lparr>shape_m = [2, 2], stride_m = 3\<rparr>\<rparr> :: (32 word, 64 word) Tensor) 1 1 = p + 4"
  by (simp add: elem_position)

lemma example_coords:
  "(1, 1) \<in> set (coords (\<lparr>dptr = p, shape = \<lparr>shape_m = [2, 2], stride_m = 3\<rparr>\<rparr> :: (32 word, 64 word) Tensor))"
  by (simp add: set_coords FlatTo2D_def zMaxShape_def upt_rec)

subsection \<open>Fused and eager evaluation\<close>

text \<open>
  Claim C1. Let \<open>dst\<close> be an array and \<open>A\<close>, \<open>B\<close>, \<open>C\<close> arrays with the extents of \<open>dst\<close>,
  each of them either \<open>dst\<close> itself or a buffer that does not overlap \<open>dst\<close> (the
  specification leaves overlapping handles to the caller), and let \<open>tmp\<close> be a separate
  buffer with the same extents: an array that overlaps none of \<open>A\<close>, \<open>B\<close>, \<open>C\<close>, \<open>dst\<close>.
  Then, for any two binary operators on scalars and any memory, evaluating
  \<open>dst = (A + B) * C\<close> through Plan construction and \<^verbatim>\<open>MapExp\<close> leaves at every element of
  \<open>dst\<close> the value that \<open>tmp = A + B\<close> followed by \<open>dst = tmp * C\<close> leaves there; the fused
  evaluation changes no position outside \<open>dst\<close> (no intermediate array is written); and the
  value at row \<open>y\<close> and column \<open>x\<close> is \<open>(A(y, x) + B(y, x)) * C(y, x)\<close>, read from the memory
  before the evaluation. The proof uses only that every coordinate is visited once, not the
  order of the visits.
\<close>

theorem fusion_equivalence:
  fixes dst tmp A B C :: "(('i::len) word, ('s::len) word) Tensor"
    and mem :: "('s word, 'r) memory"
  assumes arr_dst: "array dst" and arr_tmp: "array tmp"
    and shA: "shape_m (shape A) = shape_m (shape dst)"
    and shB: "shape_m (shape B) = shape_m (shape dst)"
    and shC: "shape_m (shape C) = shape_m (shape dst)"
    and shT: "shape_m (shape tmp) = shape_m (shape dst)"
    and sepA: "A = dst \<or> footprint dst \<inter> footprint A = {}"
    and sepB: "B = dst \<or> footprint dst \<inter> footprint B = {}"
    and sepC: "C = dst \<or> footprint dst \<inter> footprint C = {}"
    and sepT: "footprint tmp \<inter> (footprint A \<union> footprint B \<union> footprint C \<union> footprint dst) = {}"
  shows "(\<forall>a. a \<in> footprint dst \<longrightarrow>
            fused plus_op mul_op dst A B C mem a = eager plus_op mul_op tmp dst A B C mem a) \<and>
         (\<forall>a. a \<notin> footprint dst \<longrightarrow> fused plus_op mul_op dst A B C mem a = mem a) \<and>
         (\<forall>y x. (y, x) \<in> set (coords dst) \<longrightarrow>
            fused plus_op mul_op dst A B C mem (elem dst y x)
              = mul_op (plus_op (mem (elem A y x)) (mem (elem B y x))) (mem (elem C y x)))"
proof -
  have neA: "shape_m (shape A) \<noteq> []" and neB: "shape_m (shape B) \<noteq> []"
    and neC: "shape_m (shape C) \<noteq> []" and neT: "shape_m (shape tmp) \<noteq> []"
    using arr_dst shA shB shC shT by (simp_all add: array_def)
  have cT: "coords tmp = coords dst" using shT by (rule coords_cong)
  have inA: "elem A (fst c) (snd c) \<in> footprint A" if "c \<in> set (coords dst)" for c
    using shA that by (rule elem_in_footprint)
  have inB: "elem B (fst c) (snd c) \<in> footprint B" if "c \<in> set (coords dst)" for c
    using shB that by (rule elem_in_footprint)
  have inC: "elem C (fst c) (snd c) \<in> footprint C" if "c \<in> set (coords dst)" for c
    using shC that by (rule elem_in_footprint)
  have inT: "elem tmp (fst c) (snd c) \<in> footprint tmp" if "c \<in> set (coords dst)" for c
    using shT that by (rule elem_in_footprint)
  have tmpA: "A = tmp \<or> footprint tmp \<inter> footprint A = {}"
    and tmpB: "B = tmp \<or> footprint tmp \<inter> footprint B = {}"
    and dstT: "tmp = dst \<or> footprint dst \<inter> footprint tmp = {}"
    using sepT by blast+
  let ?PF = "MakePlan (BinaryMapExp mul_op (BinaryMapExp plus_op (TensorExp A) (TensorExp B)) (TensorExp C))"
  let ?P1 = "MakePlan (BinaryMapExp plus_op (TensorExp A) (TensorExp B)) :: ('i word, 's word, 'r) Plan"
  let ?P2 = "MakePlan (BinaryMapExp mul_op (TensorExp tmp) (TensorExp C))"
  have evF: "Eval ?PF m y x = mul_op (plus_op (m (elem A y x)) (m (elem B y x))) (m (elem C y x))" for m y x
    by (simp add: elem_position neA neB neC)
  have ev1: "Eval ?P1 m y x = plus_op (m (elem A y x)) (m (elem B y x))" for m y x
    by (simp add: elem_position neA neB)
  have ev2: "Eval ?P2 m y x = mul_op (m (elem tmp y x)) (m (elem C y x))" for m y x
    by (simp add: elem_position neT neC)
  have fusedv: "fused plus_op mul_op dst A B C mem (elem dst y x)
      = mul_op (plus_op (mem (elem A y x)) (mem (elem B y x))) (mem (elem C y x))"
    if c: "(y, x) \<in> set (coords dst)" for y x
  proof -
    have "MapPlan saveto dst ?PF mem (elem dst y x) = saveto (mem (elem dst y x)) (Eval ?PF mem y x)"
      using arr_dst _ c
    proof (rule MapPlan_at)
      fix c m m'
      assume cin: "c \<in> set (coords dst)"
        and ag: "\<forall>a. a \<notin> footprint dst \<or> a = elem dst (fst c) (snd c) \<longrightarrow> m' a = (m a :: 'r)"
      have "m' (elem A (fst c) (snd c)) = m (elem A (fst c) (snd c))"
        using sepA inA [OF cin] ag by (rule source_read)
      moreover have "m' (elem B (fst c) (snd c)) = m (elem B (fst c) (snd c))"
        using sepB inB [OF cin] ag by (rule source_read)
      moreover have "m' (elem C (fst c) (snd c)) = m (elem C (fst c) (snd c))"
        using sepC inC [OF cin] ag by (rule source_read)
      ultimately show "Eval ?PF m' (fst c) (snd c) = Eval ?PF m (fst c) (snd c)"
        unfolding evF by simp
    qed
    then show ?thesis unfolding evF by (simp add: fused_def MapExp_def saveto_def)
  qed
  define mem1 where "mem1 = MapPlan saveto tmp ?P1 mem"
  have mem1_other: "mem1 a = mem a" if "a \<notin> footprint tmp" for a
    unfolding mem1_def using that by (rule MapPlan_other)
  have mem1_tmp: "mem1 (elem tmp y x) = plus_op (mem (elem A y x)) (mem (elem B y x))"
    if c: "(y, x) \<in> set (coords dst)" for y x
  proof -
    have c': "(y, x) \<in> set (coords tmp)" using c cT by simp
    have "MapPlan saveto tmp ?P1 mem (elem tmp y x) = saveto (mem (elem tmp y x)) (Eval ?P1 mem y x)"
      using arr_tmp _ c'
    proof (rule MapPlan_at)
      fix c m m'
      assume "c \<in> set (coords tmp)"
        and ag: "\<forall>a. a \<notin> footprint tmp \<or> a = elem tmp (fst c) (snd c) \<longrightarrow> m' a = (m a :: 'r)"
      then have cin: "c \<in> set (coords dst)" using cT by simp
      have "m' (elem A (fst c) (snd c)) = m (elem A (fst c) (snd c))"
        using tmpA inA [OF cin] ag by (rule source_read)
      moreover have "m' (elem B (fst c) (snd c)) = m (elem B (fst c) (snd c))"
        using tmpB inB [OF cin] ag by (rule source_read)
      ultimately show "Eval ?P1 m' (fst c) (snd c) = Eval ?P1 m (fst c) (snd c)"
        unfolding ev1 by simp
    qed
    then show ?thesis unfolding ev1 by (simp add: mem1_def saveto_def)
  qed
  have eagerv: "eager plus_op mul_op tmp dst A B C mem (elem dst y x)
      = mul_op (plus_op (mem (elem A y x)) (mem (elem B y x))) (mem (elem C y x))"
    if c: "(y, x) \<in> set (coords dst)" for y x
  proof -
    have "MapPlan saveto dst ?P2 mem1 (elem dst y x) = saveto (mem1 (elem dst y x)) (Eval ?P2 mem1 y x)"
      using arr_dst _ c
    proof (rule MapPlan_at)
      fix c m m'
      assume cin: "c \<in> set (coords dst)"
        and ag: "\<forall>a. a \<notin> footprint dst \<or> a = elem dst (fst c) (snd c) \<longrightarrow> m' a = (m a :: 'r)"
      have "m' (elem tmp (fst c) (snd c)) = m (elem tmp (fst c) (snd c))"
        using dstT inT [OF cin] ag by (rule source_read)
      moreover have "m' (elem C (fst c) (snd c)) = m (elem C (fst c) (snd c))"
        using sepC inC [OF cin] ag by (rule source_read)
      ultimately show "Eval ?P2 m' (fst c) (snd c) = Eval ?P2 m (fst c) (snd c)"
        unfolding ev2 by simp
    qed
    moreover have "elem C y x \<notin> footprint tmp"
      using inC [of "(y, x)"] c sepT by auto
    then have "mem1 (elem C y x) = mem (elem C y x)" by (rule mem1_other)
    ultimately have "MapPlan saveto dst ?P2 mem1 (elem dst y x)
        = mul_op (plus_op (mem (elem A y x)) (mem (elem B y x))) (mem (elem C y x))"
      unfolding ev2 by (simp only: saveto_def mem1_tmp [OF c])
    then show ?thesis
      unfolding eager_def MapExp_def mem1_def .
  qed
  have same: "fused plus_op mul_op dst A B C mem a = eager plus_op mul_op tmp dst A B C mem a"
    if "a \<in> footprint dst" for a
  proof -
    from that obtain y x where c: "(y, x) \<in> set (coords dst)" and a: "a = elem dst y x"
      by (auto simp: footprint_def)
    show ?thesis unfolding a fusedv [OF c] eagerv [OF c] ..
  qed
  have frame: "fused plus_op mul_op dst A B C mem a = mem a" if "a \<notin> footprint dst" for a
    unfolding fused_def MapExp_def using that by (rule MapPlan_other)
  show ?thesis
  proof (intro conjI allI impI)
    fix a assume "a \<in> footprint dst"
    then show "fused plus_op mul_op dst A B C mem a = eager plus_op mul_op tmp dst A B C mem a"
      by (rule same)
  next
    fix a assume "a \<notin> footprint dst"
    then show "fused plus_op mul_op dst A B C mem a = mem a" by (rule frame)
  next
    fix y x assume "(y, x) \<in> set (coords dst)"
    then show "fused plus_op mul_op dst A B C mem (elem dst y x)
              = mul_op (plus_op (mem (elem A y x)) (mem (elem B y x))) (mem (elem C y x))"
      by (rule fusedv)
  qed
qed

text \<open>
  Arrays of two rows and two columns with stride 3 in a memory that holds at every position
  its own number. With \<open>A\<close>, \<open>B\<close>, \<open>C\<close>, \<open>tmp\<close>, \<open>dst\<close> at the positions 0, 6, 12, 18 and 24
  the last element of \<open>dst\<close> is \<open>(4 + 10) * 16 = 224\<close> either way. With \<open>dst\<close> being \<open>A\<close>
  itself (\<open>A = (A + B) * C\<close> in place) the last element of \<open>A\<close> is 224 either way, too.
\<close>

theorem fusion_equivalence_witness:
  "array (\<lparr>dptr = 24, shape = \<lparr>shape_m = [2, 2], stride_m = 3\<rparr>\<rparr> :: (32 word, 64 word) Tensor) \<and> array (\<lparr>dptr = 18, shape = \<lparr>shape_m = [2, 2], stride_m = 3\<rparr>\<rparr> :: (32 word, 64 word) Tensor) \<and>
   shape_m (shape (\<lparr>dptr = 0, shape = \<lparr>shape_m = [2, 2], stride_m = 3\<rparr>\<rparr> :: (32 word, 64 word) Tensor)) = shape_m (shape (\<lparr>dptr = 24, shape = \<lparr>shape_m = [2, 2], stride_m = 3\<rparr>\<rparr> :: (32 word, 64 word) Tensor)) \<and>
   shape_m (shape (\<lparr>dptr = 6, shape = \<lparr>shape_m = [2, 2], stride_m = 3\<rparr>\<rparr> :: (32 word, 64 word) Tensor)) = shape_m (shape (\<lparr>dptr = 24, shape = \<lparr>shape_m = [2, 2], stride_m = 3\<rparr>\<rparr> :: (32 word, 64 word) Tensor)) \<and>
   shape_m (shape (\<lparr>dptr = 12, shape = \<lparr>shape_m = [2, 2], stride_m = 3\<rparr>\<rparr> :: (32 word, 64 word) Tensor)) = shape_m (shape (\<lparr>dptr = 24, shape = \<lparr>shape_m = [2, 2], stride_m = 3\<rparr>\<rparr> :: (32 word, 64 word) Tensor)) \<and>
   shape_m (shape (\<lparr>dptr = 18, shape = \<lparr>shape_m = [2, 2], stride_m = 3\<rparr>\<rparr> :: (32 word, 64 word) Tensor)) = shape_m (shape (\<lparr>dptr = 24, shape = \<lparr>shape_m = [2, 2], stride_m = 3\<rparr>\<rparr> :: (32 word, 64 word) Tensor)) \<and>
   footprint (\<lparr>dptr = 24, shape = \<lparr>shape_m = [2, 2], stride_m = 3\<rparr>\<rparr> :: (32 word, 64 word) Tensor) \<inter> footprint (\<lparr>dptr = 0, shape = \<lparr>shape_m = [2, 2], stride_m = 3\<rparr>\<rparr> :: (32 word, 64 word) Tensor) = {} \<and>
   footprint (\<lparr>dptr = 24, shape = \<lparr>shape_m = [2, 2], stride_m = 3\<rparr>\<rparr> :: (32 word, 64 word) Tensor) \<inter> footprint (\<lparr>dptr = 6, shape = \<lparr>shape_m = [2, 2], stride_m = 3\<rparr>\<rparr> :: (32 word, 64 word) Tensor) = {} \<and>
   footprint (\<lparr>dptr = 24, shape = \<lparr>shape_m = [2, 2], stride_m = 3\<rparr>\<rparr> :: (32 word, 64 word) Tensor) \<inter> footprint (\<lparr>dptr = 12, shape = \<lparr>shape_m = [2, 2], stride_m = 3\<rparr>\<rparr> :: (32 word, 64 word) Tensor) = {} \<and>
   footprint (\<lparr>dptr = 18, shape = \<lparr>shape_m = [2, 2], stride_m = 3\<rparr>\<rparr> :: (32 word, 64 word) Tensor) \<inter> (footprint (\<lparr>dptr = 0, shape = \<lparr>shape_m = [2, 2], stride_m = 3\<rparr>\<rparr> :: (32 word, 64 word) Tensor) \<union> footprint (\<lparr>dptr = 6, shape = \<lparr>shape_m = [2, 2], stride_m = 3\<rparr>\<rparr> :: (32 word, 64 word) Tensor) \<union> footprint (\<lparr>dptr = 12, shape = \<lparr>shape_m = [2, 2], stride_m = 3\<rparr>\<rparr> :: (32 word, 64 word) Tensor) \<union> footprint (\<lparr>dptr = 24, shape = \<lparr>shape_m = [2, 2], stride_m = 3\<rparr>\<rparr> :: (32 word, 64 word) Tensor)) = {} \<and>
   28 \<in> footprint (\<lparr>dptr = 24, shape = \<lparr>shape_m = [2, 2], stride_m = 3\<rparr>\<rparr> :: (32 word, 64 word) Tensor) \<and>
   fused (+) (*) (\<lparr>dptr = 24, shape = \<lparr>shape_m = [2, 2], stride_m = 3\<rparr>\<rparr> :: (32 word, 64 word) Tensor) (\<lparr>dptr = 0, shape = \<lparr>shape_m = [2, 2], stride_m = 3\<rparr>\<rparr> :: (32 word, 64 word) Tensor) (\<lparr>dptr = 6, shape = \<lparr>shape_m = [2, 2], stride_m = 3\<rparr>\<rparr> :: (32 word, 64 word) Tensor) (\<lparr>dptr = 12, shape = \<lparr>shape_m = [2, 2], stride_m = 3\<rparr>\<rparr> :: (32 word, 64 word) Tensor) uint 28 = 224 \<and>
   eager (+) (*) (\<lparr>dptr = 18, shape = \<lparr>shape_m = [2, 2], stride_m = 3\<rparr>\<rparr> :: (32 word, 64 word) Tensor) (\<lparr>dptr = 24, shape = \<lparr>shape_m = [2, 2], stride_m = 3\<rparr>\<rparr> :: (32 word, 64 word) Tensor) (\<lparr>dptr = 0, shape = \<lparr>shape_m = [2, 2], stride_m = 3\<rparr>\<rparr> :: (32 word, 64 word) Tensor) (\<lparr>dptr = 6, shape = \<lparr>shape_m = [2, 2], stride_m = 3\<rparr>\<rparr> :: (32 word, 64 word) Tensor) (\<lparr>dptr = 12, shape = \<lparr>shape_m = [2, 2], stride_m = 3\<rparr>\<rparr> :: (32 word, 64 word) Tensor) uint 28 = 224 \<and>
   footprint (\<lparr>dptr = 0, shape = \<lparr>shape_m = [2, 2], stride_m = 3\<rparr>\<rparr> :: (32 word, 64 word) Tensor) \<inter> footprint (\<lparr>dptr = 6, shape = \<lparr>shape_m = [2, 2], stride_m = 3\<rparr>\<rparr> :: (32 word, 64 word) Tensor) = {} \<and>
   footprint (\<lparr>dptr = 0, shape = \<lparr>shape_m = [2, 2], stride_m = 3\<rparr>\<rparr> :: (32 word, 64 word) Tensor) \<inter> footprint (\<lparr>dptr = 12, shape = \<lparr>shape_m = [2, 2], stride_m = 3\<rparr>\<rparr> :: (32 word, 64 word) Tensor) = {} \<and>
   footprint (\<lparr>dptr = 18, shape = \<lparr>shape_m = [2, 2], stride_m = 3\<rparr>\<rparr> :: (32 word, 64 word) Tensor) \<inter> (footprint (\<lparr>dptr = 0, shape = \<lparr>shape_m = [2, 2], stride_m = 3\<rparr>\<rparr> :: (32 word, 64 word) Tensor) \<union> footprint (\<lparr>dptr = 6, shape = \<lparr>shape_m = [2, 2], stride_m = 3\<rparr>\<rparr> :: (32 word, 64 word) Tensor) \<union> footprint (\<lparr>dptr = 12, shape = \<lparr>shape_m = [2, 2], stride_m = 3\<rparr>\<rparr> :: (32 word, 64 word) Tensor) \<union> footprint (\<lparr>dptr = 0, shape = \<lparr>shape_m = [2, 2], stride_m = 3\<rparr>\<rparr> :: (32 word, 64 word) Tensor)) = {} \<and>
   4 \<in> footprint (\<lparr>dptr = 0, shape = \<lparr>shape_m = [2, 2], stride_m = 3\<rparr>\<rparr> :: (32 word, 64 word) Tensor) \<and>
   fused (+) (*) (\<lparr>dptr = 0, shape = \<lparr>shape_m = [2, 2], stride_m = 3\<rparr>\<rparr> :: (32 word, 64 word) Tensor) (\<lparr>dptr = 0, shape = \<lparr>shape_m = [2, 2], stride_m = 3\<rparr>\<rparr> :: (32 word, 64 word) Tensor) (\<lparr>dptr = 6, shape = \<lparr>shape_m = [2, 2], stride_m = 3\<rparr>\<rparr> :: (32 word, 64 word) Tensor) (\<lparr>dptr = 12, shape = \<lparr>shape_m = [2, 2], stride_m = 3\<rparr>\<rparr> :: (32 word, 64 word) Tensor) uint 4 = 224 \<and>
   eager (+) (*) (\<lparr>dptr = 18, shape = \<lparr>shape_m = [2, 2], stride_m = 3\<rparr>\<rparr> :: (32 word, 64 word) Tensor) (\<lparr>dptr = 0, shape = \<lparr>shape_m = [2, 2], stride_m = 3\<rparr>\<rparr> :: (32 word, 64 word) Tensor) (\<lparr>dptr = 0, shape = \<lparr>shape_m = [2, 2], stride_m = 3\<rparr>\<rparr> :: (32 word, 64 word) Tensor) (\<lparr>dptr = 6, shape = \<lparr>shape_m = [2, 2], stride_m = 3\<rparr>\<rparr> :: (32 word, 64 word) Tensor) (\<lparr>dptr = 12, shape = \<lparr>shape_m = [2, 2], stride_m = 3\<rparr>\<rparr> :: (32 word, 64 word) Tensor) uint 4 = 224"
proof -
  let ?A = "(\<lparr>dptr = 0, shape = \<lparr>shape_m = [2, 2], stride_m = 3\<rparr>\<rparr> :: (32 word, 64 word) Tensor)"
  let ?B = "(\<lparr>dptr = 6, shape = \<lparr>shape_m = [2, 2], stride_m = 3\<rparr>\<rparr> :: (32 word, 64 word) Tensor)"
  let ?C = "(\<lparr>dptr = 12, shape = \<lparr>shape_m = [2, 2], stride_m = 3\<rparr>\<rparr> :: (32 word, 64 word) Tensor)"
  let ?T = "(\<lparr>dptr = 18, shape = \<lparr>shape_m = [2, 2], stride_m = 3\<rparr>\<rparr> :: (32 word, 64 word) Tensor)"
  let ?D = "(\<lparr>dptr = 24, shape = \<lparr>shape_m = [2, 2], stride_m = 3\<rparr>\<rparr> :: (32 word, 64 word) Tensor)"
  have fp: "footprint ?D \<inter> footprint ?A = {}" "footprint ?D \<inter> footprint ?B = {}"
    "footprint ?D \<inter> footprint ?C = {}"
    "footprint ?T \<inter> (footprint ?A \<union> footprint ?B \<union> footprint ?C \<union> footprint ?D) = {}"
    by (simp_all add: example_footprint)
  have fq: "footprint ?A \<inter> footprint ?B = {}" "footprint ?A \<inter> footprint ?C = {}"
    "footprint ?T \<inter> (footprint ?A \<union> footprint ?B \<union> footprint ?C \<union> footprint ?A) = {}"
    by (simp_all add: example_footprint)
  have in28: "28 \<in> footprint ?D" and in4: "4 \<in> footprint ?A"
    by (simp_all add: example_footprint)
  have c: "(1, 1) \<in> set (coords ?D)" and c': "(1, 1) \<in> set (coords ?A)"
    by (rule example_coords)+
  note fe = fusion_equivalence [of ?D ?T ?A ?B ?C "(+)" "(*)" uint,
      OF example_array example_array _ _ _ _
        disjI2 [OF fp(1)] disjI2 [OF fp(2)] disjI2 [OF fp(3)] fp(4)]
  note fi = fusion_equivalence [of ?A ?T ?A ?B ?C "(+)" "(*)" uint,
      OF example_array example_array _ _ _ _
        disjI1 [OF refl] disjI2 [OF fq(1)] disjI2 [OF fq(2)] fq(3)]
  have "fused (+) (*) ?D ?A ?B ?C uint (elem ?D 1 1)
      = (uint (elem ?A 1 1) + uint (elem ?B 1 1)) * uint (elem ?C 1 1)"
    using fe c by simp
  then have f: "fused (+) (*) ?D ?A ?B ?C uint 28 = 224"
    by (simp add: example_elem)
  have "fused (+) (*) ?D ?A ?B ?C uint 28 = eager (+) (*) ?T ?D ?A ?B ?C uint 28"
    using fe in28 by simp
  with f have e: "eager (+) (*) ?T ?D ?A ?B ?C uint 28 = 224" by simp
  have "fused (+) (*) ?A ?A ?B ?C uint (elem ?A 1 1)
      = (uint (elem ?A 1 1) + uint (elem ?B 1 1)) * uint (elem ?C 1 1)"
    using fi c' by simp
  then have f': "fused (+) (*) ?A ?A ?B ?C uint 4 = 224"
    by (simp add: example_elem)
  have "fused (+) (*) ?A ?A ?B ?C uint 4 = eager (+) (*) ?T ?A ?A ?B ?C uint 4"
    using fi in4 by simp
  with f' have e': "eager (+) (*) ?T ?A ?A ?B ?C uint 4 = 224" by simp
  from fp fq in28 in4 f e f' e' show ?thesis by (simp add: example_array)
qed

end
